theory Spec2Isabelle
  imports Main
begin

section \<open>Python values\<close>

text \<open>
  The exporter \<^verbatim>\<open>export_hubspot_to_supabase.py\<close> moves JSON documents between two
  web services. A JSON document, as Python's \<^verbatim>\<open>response.json()\<close> delivers it, is
  a value of \<open>pyval\<close>; a dictionary inside a document is an association list with
  string keys. JSON numbers with a fraction are not part of the model.
  Every exception the script can meet is a value of \<open>exn\<close>, and a computation that
  may raise returns \<open>exn + 'a\<close> with \<open>Inl\<close> for the exception.
\<close>

datatype exn =
  KeyError | TypeError | AttributeError | ValueError | ZeroDivisionError
  | OSError | RequestException | JSONDecodeError | APIError

datatype pyval =
  PNone
  | PBool bool
  | PInt int
  | PStr string
  | PList "pyval list"
  | PDict "(string \<times> pyval) list"

text \<open>Truth value testing, as \<^verbatim>\<open>if not after\<close> uses it.\<close>

fun truthy :: "pyval \<Rightarrow> bool" where
  "truthy PNone = False"
| "truthy (PBool b) = b"
| "truthy (PInt i) = (i \<noteq> 0)"
| "truthy (PStr s) = (s \<noteq> [])"
| "truthy (PList xs) = (xs \<noteq> [])"
| "truthy (PDict kvs) = (kvs \<noteq> [])"

text \<open>\<^verbatim>\<open>obj[key]\<close> with a string key: only a dictionary can answer.\<close>

fun py_getitem :: "pyval \<Rightarrow> string \<Rightarrow> exn + pyval" where
  "py_getitem (PDict kvs) k = (case map_of kvs k of None \<Rightarrow> Inl KeyError | Some v \<Rightarrow> Inr v)"
| "py_getitem v k = Inl TypeError"

text \<open>\<^verbatim>\<open>obj.get(key, default)\<close>: only a dictionary has the method.\<close>

fun py_get :: "pyval \<Rightarrow> string \<Rightarrow> pyval \<Rightarrow> exn + pyval" where
  "py_get (PDict kvs) k d = Inr (case map_of kvs k of None \<Rightarrow> d | Some v \<Rightarrow> v)"
| "py_get v k d = Inl AttributeError"

text \<open>\<^verbatim>\<open>key in s\<close> on strings is the substring test.\<close>

fun is_infix :: "string \<Rightarrow> string \<Rightarrow> bool" where
  "is_infix k [] = (k = [])"
| "is_infix k (c # cs) = (take (length k) (c # cs) = k \<or> is_infix k cs)"

fun py_contains :: "pyval \<Rightarrow> string \<Rightarrow> exn + bool" where
  "py_contains (PDict kvs) k = Inr (k \<in> fst ` set kvs)"
| "py_contains (PList xs) k = Inr (PStr k \<in> set xs)"
| "py_contains (PStr s) k = Inr (is_infix k s)"
| "py_contains v k = Inl TypeError"

text \<open>
  What \<^verbatim>\<open>list.extend(batch)\<close> appends: the elements of a list, the keys of a
  dictionary, the characters of a string; anything else is not iterable.
\<close>

fun py_iter :: "pyval \<Rightarrow> exn + pyval list" where
  "py_iter (PList xs) = Inr xs"
| "py_iter (PDict kvs) = Inr (map (\<lambda>kv. PStr (fst kv)) kvs)"
| "py_iter (PStr s) = Inr (map (\<lambda>c. PStr [c]) s)"
| "py_iter v = Inl TypeError"

text \<open>\<^verbatim>\<open>sep.join(parts)\<close> on a list of strings.\<close>

fun join :: "string \<Rightarrow> string list \<Rightarrow> string" where
  "join sep [] = []"
| "join sep [x] = x"
| "join sep (x # y # ys) = x @ sep @ join sep (y # ys)"

section \<open>Characters\<close>

text \<open>
  A character of a string of the model stands for one character of a Python string
  (the alphabet of the model is the 256 characters of the type \<open>char\<close>; nothing is
  fixed about what those past ASCII are). Which characters are alphanumeric, and what \<^verbatim>\<open>str.lower\<close> makes of a string,
  is decided by the Unicode tables of the Python that runs the script; the model takes
  both from the environment (below). On ASCII characters the tables are known: the
  alphanumeric characters are the digits and the letters, and lower-casing maps the
  capital letters to the small ones, character by character.
\<close>

definition ascii :: "char \<Rightarrow> bool" where
  "ascii c = ((of_char c :: nat) < 128)"

definition ascii_isalnum :: "char \<Rightarrow> bool" where
  "ascii_isalnum c =
     (let n = (of_char c :: nat)
      in (48 \<le> n \<and> n \<le> 57) \<or> (65 \<le> n \<and> n \<le> 90) \<or> (97 \<le> n \<and> n \<le> 122))"

definition ascii_lower_char :: "char \<Rightarrow> char" where
  "ascii_lower_char c =
     (let n = (of_char c :: nat) in if 65 \<le> n \<and> n \<le> 90 then char_of (n + 32) else c)"

section \<open>The outside world\<close>

text \<open>
  Times are instants in microseconds (the resolution of Python's \<^verbatim>\<open>datetime\<close>);
  \<^verbatim>\<open>timedelta(days=1)\<close> is \<open>timedelta_days 1\<close>.
\<close>

definition timedelta_days :: "int \<Rightarrow> int" where
  "timedelta_days d = d * 86400000000"

text \<open>
  One answer of the HubSpot endpoint to one \<^verbatim>\<open>requests.get\<close>: the call raises, or
  it returns a response with its status code, the outcome of the rate-limit pause
  (\<^verbatim>\<open>int(response.headers.get('Retry-After', 10))\<close> followed by
  \<^verbatim>\<open>time.sleep\<close>, which raises on a header that is no integer) and the outcome of
  \<^verbatim>\<open>response.json()\<close>.
\<close>

datatype http_result =
  RequestFailed
  | Response int "exn + int" "exn + pyval"

text \<open>A row of a destination table, as the script builds it: a flat dictionary.\<close>

type_synonym row = "string \<rightharpoonup> pyval"

text \<open>
  Everything the script does not decide itself, for the processing of one object type:
  library functions left abstract (\<open>isalnum\<close> is \<^verbatim>\<open>str.isalnum\<close> on one
  character, \<open>lower\<close> is \<^verbatim>\<open>str.lower\<close> on a whole string, which may change its
  length), the clock at the three places that read it, and the answers of the two
  services. \<open>upsert_ok env n t rows\<close> tells whether the upsert call
  that follows \<open>n\<close> earlier ones, sending \<open>rows\<close> to table \<open>t\<close>, succeeds.
\<close>

record env =
  isalnum :: "char \<Rightarrow> bool"
  lower :: "string \<Rightarrow> string"
  fromisoformat :: "pyval \<Rightarrow> exn + int"
  render_timestamptz :: "int \<Rightarrow> pyval"
  py_repr :: "pyval \<Rightarrow> string"
  read_fails :: bool
  now_read :: int
  discovered_properties :: "exn + string list"
  table_exists :: "string \<Rightarrow> bool"
  file_write_ok :: "string \<Rightarrow> bool"
  responses :: "http_result list"
  upsert_ok :: "nat \<Rightarrow> string \<Rightarrow> row list \<Rightarrow> bool"
  now_sync :: int
  now_write :: int
  state_write_ok :: bool

text \<open>
  The state the script changes: the \<^verbatim>\<open>sync_state\<close> table (one row per object type,
  \<^verbatim>\<open>object_type\<close> being unique), the files written, the page requests sent, the
  upsert calls made on destination tables with their outcome, and the counts printed
  by the row-by-row fallback (successes, rows attempted).
\<close>

record sync_row =
  last_sync_time :: int
  sync_cursor :: string
  updated_at :: int

record http_request =
  req_object_type :: string
  req_limit :: int
  req_properties :: "string option"
  req_after :: pyval
  req_since :: "int option"

datatype call_site = Bulk | OneByOne

record upsert_call =
  site :: call_site
  target :: string
  payload :: "row list"
  succeeded :: bool

record world =
  sync_state :: "string \<rightharpoonup> sync_row"
  files :: "string \<rightharpoonup> string"
  requests :: "http_request list"
  upserts :: "upsert_call list"
  fallback_reports :: "(nat \<times> nat) list"

section \<open>Column names\<close>

text \<open>
  The expression \<^verbatim>\<open>''.join(c if c.isalnum() else '_' for c in prop).lower()\<close>. The
  script writes it out twice, at line 195 (\<^verbatim>\<open>create_supabase_table\<close>) and at line
  287 (\<^verbatim>\<open>export_object_type\<close>); both copies are this one function.
\<close>

definition sanitize :: "env \<Rightarrow> string \<Rightarrow> string" where
  "sanitize env prop = lower env (concat (map (\<lambda>c. if isalnum env c then [c] else ''_'') prop))"

text \<open>
  What is known of every Python: on ASCII characters and on strings of ASCII characters
  the tables of the environment are the ASCII ones.
\<close>

definition ascii_tables :: "env \<Rightarrow> bool" where
  "ascii_tables env =
     ((\<forall>c. ascii c \<longrightarrow> isalnum env c = ascii_isalnum c)
      \<and> (\<forall>s. list_all ascii s \<longrightarrow> lower env s = map ascii_lower_char s))"

section \<open>Watermark store\<close>

text \<open>
  The query of \<^verbatim>\<open>get_last_sync_time\<close> (lines 59 to 64): it raises, or it returns
  the rows of the object type, at most one, as dictionaries.
\<close>

definition select_sync_state :: "env \<Rightarrow> string \<Rightarrow> world \<Rightarrow> exn + pyval list" where
  "select_sync_state env object_type w =
     (if read_fails env then Inl APIError
      else Inr (case sync_state w object_type of
                  None \<Rightarrow> []
                | Some r \<Rightarrow>
                    [PDict [(''object_type'', PStr object_type),
                            (''last_sync_time'', render_timestamptz env (last_sync_time r)),
                            (''sync_cursor'', PStr (sync_cursor r)),
                            (''updated_at'', render_timestamptz env (updated_at r))]]))"

text \<open>
  \<^verbatim>\<open>get_last_sync_time\<close>, lines 56 to 73. Every exception inside the
  \<^verbatim>\<open>try\<close> block is logged and control falls through to the default of line 73.
\<close>

definition default_lookback :: "env \<Rightarrow> int \<times> pyval" where
  "default_lookback env = (now_read env - timedelta_days 1, PStr [])"

definition get_last_sync_time :: "env \<Rightarrow> string \<Rightarrow> world \<Rightarrow> int \<times> pyval" where
  "get_last_sync_time env object_type w =
     (case select_sync_state env object_type w of
        Inl e \<Rightarrow> default_lookback env
      | Inr data \<Rightarrow>
          (case data of
             [] \<Rightarrow> default_lookback env
           | last_sync # rest \<Rightarrow>
               (case py_getitem last_sync ''last_sync_time'' of
                  Inl e \<Rightarrow> default_lookback env
                | Inr s \<Rightarrow>
                    (case fromisoformat env s of
                       Inl e \<Rightarrow> default_lookback env
                     | Inr t \<Rightarrow>
                         (case py_get last_sync ''sync_cursor'' (PStr []) of
                            Inl e \<Rightarrow> default_lookback env
                          | Inr c \<Rightarrow> (t, c))))))"

text \<open>
  \<^verbatim>\<open>update_sync_state\<close>, lines 75 to 86: an upsert of the row of the object type;
  a failure of the store is logged and swallowed.
\<close>

definition update_sync_state :: "env \<Rightarrow> string \<Rightarrow> int \<Rightarrow> string \<Rightarrow> world \<Rightarrow> world" where
  "update_sync_state env object_type sync_time cursor w =
     (if state_write_ok env
      then w\<lparr>sync_state := (sync_state w)(object_type \<mapsto>
             \<lparr>last_sync_time = sync_time, sync_cursor = cursor, updated_at = now_write env\<rparr>)\<rparr>
      else w)"

text \<open>
  \<^verbatim>\<open>create_sync_state_table\<close>, lines 213 to 227: one remote call whose failure is
  logged and swallowed; nothing of the state above changes.
\<close>

definition create_sync_state_table :: "env \<Rightarrow> world \<Rightarrow> world" where
  "create_sync_state_table env w = w"

text \<open>
  \<^verbatim>\<open>get_all_properties\<close>, lines 37 to 54: the names the service lists, or the
  empty list on any exception.
\<close>

definition get_all_properties :: "env \<Rightarrow> string \<Rightarrow> string list" where
  "get_all_properties env object_type =
     (case discovered_properties env of Inl e \<Rightarrow> [] | Inr names \<Rightarrow> names)"

section \<open>Remote fetcher\<close>

text \<open>
  Lines 157 to 162: the continuation token of a page. \<open>Inr None\<close> is the
  \<^verbatim>\<open>else\<close> branch (no next page), \<open>Inr (Some a)\<close> the value of
  \<^verbatim>\<open>data['paging']['next'].get('after')\<close>.
\<close>

definition page_after :: "pyval \<Rightarrow> exn + pyval option" where
  "page_after data =
     (case py_contains data ''paging'' of
        Inl e \<Rightarrow> Inl e
      | Inr False \<Rightarrow> Inr None
      | Inr True \<Rightarrow>
          (case py_getitem data ''paging'' of
             Inl e \<Rightarrow> Inl e
           | Inr paging \<Rightarrow>
               (case py_contains paging ''next'' of
                  Inl e \<Rightarrow> Inl e
                | Inr False \<Rightarrow> Inr None
                | Inr True \<Rightarrow>
                    (case py_getitem paging ''next'' of
                       Inl e \<Rightarrow> Inl e
                     | Inr nxt \<Rightarrow>
                         (case py_get nxt ''after'' PNone of
                            Inl e \<Rightarrow> Inl e
                          | Inr a \<Rightarrow> Inr (Some a))))))"

text \<open>
  The \<^verbatim>\<open>while has_more\<close> loop of \<^verbatim>\<open>get_hubspot_objects\<close>, lines 102 to 170.
  Each turn sends one request (\<open>page_request\<close>: the parameters of lines 103 to 130, the
  filter being built from \<open>since\<close>) and reads the next answer of the service from the list
  \<open>rs\<close>. Every \<^verbatim>\<open>break\<close>, also the one of the \<^verbatim>\<open>except\<close> clause, leaves the
  loop with the objects accumulated so far; the function has no other way to end and
  never raises. The loop has no bound on its turns: when the answers listed run
  out before the loop has ended, the result is \<open>None\<close>.
\<close>

definition page_request ::
  "string \<Rightarrow> string list \<Rightarrow> int \<Rightarrow> int option \<Rightarrow> pyval \<Rightarrow> http_request" where
  "page_request object_type properties limit since after =
     \<lparr>req_object_type = object_type, req_limit = min limit 100,
      req_properties = (if properties \<noteq> [] then Some (join '','' properties) else None),
      req_after = after, req_since = since\<rparr>"

fun fetch_loop ::
  "string \<Rightarrow> string list \<Rightarrow> int \<Rightarrow> int option \<Rightarrow> http_result list \<Rightarrow> pyval \<Rightarrow> pyval list
     \<Rightarrow> world \<Rightarrow> (pyval list \<times> world) option" where
  "fetch_loop object_type properties limit since [] after all_objects w = None"
| "fetch_loop object_type properties limit since (r # rs) after all_objects w =
     (let w' = w\<lparr>requests := requests w @
                  [page_request object_type properties limit since after]\<rparr>
      in case r of
           RequestFailed \<Rightarrow> Some (all_objects, w')
         | Response status_code retry_wait js \<Rightarrow>
             if status_code = 401 then Some (all_objects, w')
             else if status_code \<noteq> 200 then
               (if status_code = 429 then
                  (case retry_wait of
                     Inl e \<Rightarrow> Some (all_objects, w')
                   | Inr seconds \<Rightarrow> fetch_loop object_type properties limit since rs after all_objects w')
                else Some (all_objects, w'))
             else
               (case js of
                  Inl e \<Rightarrow> Some (all_objects, w')
                | Inr data \<Rightarrow>
                    (case py_get data ''results'' (PList []) of
                       Inl e \<Rightarrow> Some (all_objects, w')
                     | Inr batch \<Rightarrow>
                         (case py_iter batch of
                            Inl e \<Rightarrow> Some (all_objects, w')
                          | Inr items \<Rightarrow>
                              (case page_after data of
                                 Inl e \<Rightarrow> Some (all_objects @ items, w')
                               | Inr None \<Rightarrow> Some (all_objects @ items, w')
                               | Inr (Some a) \<Rightarrow>
                                   if \<not> truthy a then Some (all_objects @ items, w')
                                   else fetch_loop object_type properties limit since rs a
                                          (all_objects @ items) w')))))"

definition get_hubspot_objects ::
  "env \<Rightarrow> string \<Rightarrow> string list \<Rightarrow> int \<Rightarrow> int option \<Rightarrow> world \<Rightarrow> (pyval list \<times> world) option" where
  "get_hubspot_objects env object_type properties limit since w =
     fetch_loop object_type properties limit since (responses env) PNone [] w"

section \<open>Schema reconciler\<close>

text \<open>
  \<^verbatim>\<open>check_supabase_table_exists\<close>, lines 172 to 178: a probe query; an exception
  means the table is absent.
\<close>

definition check_supabase_table_exists :: "env \<Rightarrow> string \<Rightarrow> bool" where
  "check_supabase_table_exists env table_name = table_exists env table_name"

text \<open>\<^verbatim>\<open>create_supabase_table\<close>, lines 180 to 211.\<close>

definition basic_columns :: "string list" where
  "basic_columns =
     [''id SERIAL PRIMARY KEY'',
      ''hubspot_id TEXT NOT NULL UNIQUE'',
      ''created_at TIMESTAMPTZ'',
      ''updated_at TIMESTAMPTZ'',
      ''archived BOOLEAN DEFAULT FALSE'',
      ''raw_properties JSONB'']"

definition property_column :: "env \<Rightarrow> string \<Rightarrow> string" where
  "property_column env prop = [CHR 0x22] @ sanitize env prop @ [CHR 0x22] @ '' TEXT''"

definition table_columns :: "env \<Rightarrow> string list \<Rightarrow> string list" where
  "table_columns env properties = basic_columns @ map (property_column env) properties"

definition create_sql :: "env \<Rightarrow> string \<Rightarrow> string list \<Rightarrow> string" where
  "create_sql env table_name properties =
     ''CREATE TABLE '' @ table_name @ '' ('' @ [CHR 0x0A] @ ''    ''
       @ join ('','' @ [CHR 0x0A] @ ''    '') (table_columns env properties)
       @ [CHR 0x0A] @ '');''"

definition sql_filename :: "string \<Rightarrow> string" where
  "sql_filename table_name = ''create_'' @ table_name @ ''.sql''"

text \<open>
  Opening or writing the file (lines 207 and 208) is outside every \<^verbatim>\<open>try\<close>: a
  failure there leaves the function as an exception. Otherwise the result is
  \<^verbatim>\<open>False\<close>, always.
\<close>

definition create_supabase_table :: "env \<Rightarrow> string \<Rightarrow> string list \<Rightarrow> world \<Rightarrow> (exn + bool) \<times> world" where
  "create_supabase_table env table_name properties w =
     (if file_write_ok env (sql_filename table_name)
      then (Inr False,
            w\<lparr>files := (files w)(sql_filename table_name \<mapsto> create_sql env table_name properties)\<rparr>)
      else (Inl OSError, w))"

section \<open>Record transformer\<close>

text \<open>
  \<^verbatim>\<open>str(prop_value)\<close>: a string is itself; the text of a number or of a container
  is left to \<open>py_repr\<close>.
\<close>

definition py_str :: "env \<Rightarrow> pyval \<Rightarrow> string" where
  "py_str env v =
     (case v of
        PStr s \<Rightarrow> s
      | PNone \<Rightarrow> ''None''
      | PBool b \<Rightarrow> (if b then ''True'' else ''False'')
      | _ \<Rightarrow> py_repr env v)"

text \<open>The loop of lines 285 to 290 over the declared properties.\<close>

fun add_properties :: "env \<Rightarrow> pyval \<Rightarrow> string list \<Rightarrow> row \<Rightarrow> exn + row" where
  "add_properties env props [] record = Inr record"
| "add_properties env props (prop # rest) record =
     (let col_name = sanitize env prop
      in case py_get props prop PNone of
           Inl e \<Rightarrow> Inl e
         | Inr prop_value \<Rightarrow>
             add_properties env props rest
               (if prop_value \<noteq> PNone then record(col_name \<mapsto> PStr (py_str env prop_value))
                else record))"

text \<open>The body of the \<^verbatim>\<open>try\<close> block of lines 275 to 292, for one object.\<close>

definition make_record :: "env \<Rightarrow> string list \<Rightarrow> pyval \<Rightarrow> exn + row" where
  "make_record env properties obj =
     (case py_getitem obj ''id'' of
        Inl e \<Rightarrow> Inl e
      | Inr hubspot_id \<Rightarrow>
     (case py_get obj ''createdAt'' PNone of
        Inl e \<Rightarrow> Inl e
      | Inr created \<Rightarrow>
     (case py_get obj ''updatedAt'' PNone of
        Inl e \<Rightarrow> Inl e
      | Inr updated \<Rightarrow>
     (case py_get obj ''archived'' (PBool False) of
        Inl e \<Rightarrow> Inl e
      | Inr archived \<Rightarrow>
     (case py_get obj ''properties'' (PDict []) of
        Inl e \<Rightarrow> Inl e
      | Inr props \<Rightarrow>
          add_properties env props properties
            [''hubspot_id'' \<mapsto> hubspot_id, ''created_at'' \<mapsto> created, ''updated_at'' \<mapsto> updated,
             ''archived'' \<mapsto> archived, ''raw_properties'' \<mapsto> props])))))"

text \<open>
  The loop of lines 272 to 294. A failing object is reported and skipped; the report
  itself evaluates \<^verbatim>\<open>obj.get('id')\<close>, which raises out of the loop when the object
  is no dictionary.
\<close>

fun prepare_records :: "env \<Rightarrow> string list \<Rightarrow> pyval list \<Rightarrow> row list \<Rightarrow> exn + row list" where
  "prepare_records env properties [] records = Inr records"
| "prepare_records env properties (obj # objs) records =
     (case make_record env properties obj of
        Inr record \<Rightarrow> prepare_records env properties objs (records @ [record])
      | Inl e \<Rightarrow>
          (case py_get obj ''id'' PNone of
             Inl e' \<Rightarrow> Inl e'
           | Inr i \<Rightarrow> prepare_records env properties objs records))"

section \<open>Batch loader\<close>

text \<open>
  The slices \<^verbatim>\<open>records[i:i + batch_size]\<close> for \<^verbatim>\<open>i\<close> in
  \<^verbatim>\<open>range(0, len(records), batch_size)\<close>, for a positive step.
\<close>

function batches :: "nat \<Rightarrow> 'a list \<Rightarrow> 'a list list" where
  "batches n xs = (if n = 0 \<or> xs = [] then [] else take n xs # batches n (drop n xs))"
  by pat_completeness auto
termination
  by (relation "measure (\<lambda>(n, xs). length xs)") auto

declare batches.simps [simp del]

text \<open>Lines 306 to 315: the keys of the batch, and every record padded to them.\<close>

definition all_keys :: "row list \<Rightarrow> string set" where
  "all_keys batch = foldl (\<lambda>keys record. keys \<union> dom record) {} batch"

definition standardized_record :: "string set \<Rightarrow> row \<Rightarrow> row" where
  "standardized_record keys record =
     (\<lambda>key. if key \<in> keys then Some (case record key of None \<Rightarrow> PNone | Some v \<Rightarrow> v) else None)"

definition standardize_batch :: "row list \<Rightarrow> row list" where
  "standardize_batch batch = map (standardized_record (all_keys batch)) batch"

text \<open>Lines 326 to 333: the records of a failed batch, one upsert each.\<close>

fun insert_one_by_one :: "env \<Rightarrow> string \<Rightarrow> row list \<Rightarrow> nat \<Rightarrow> world \<Rightarrow> nat \<times> world" where
  "insert_one_by_one env table_name [] success_count w = (success_count, w)"
| "insert_one_by_one env table_name (record # rest) success_count w =
     (let ok = upsert_ok env (length (upserts w)) table_name [record];
          w' = w\<lparr>upserts := upserts w @
                 [\<lparr>site = OneByOne, target = table_name, payload = [record], succeeded = ok\<rparr>]\<rparr>
      in insert_one_by_one env table_name rest (if ok then success_count + 1 else success_count) w')"

text \<open>Lines 304 to 334: one turn of the batch loop.\<close>

definition insert_batch :: "env \<Rightarrow> string \<Rightarrow> row list \<Rightarrow> world \<Rightarrow> world" where
  "insert_batch env table_name batch w =
     (let standardized_batch = standardize_batch batch;
          ok = upsert_ok env (length (upserts w)) table_name standardized_batch;
          w1 = w\<lparr>upserts := upserts w @
                 [\<lparr>site = Bulk, target = table_name, payload = standardized_batch, succeeded = ok\<rparr>]\<rparr>
      in if ok then w1
         else (case insert_one_by_one env table_name standardized_batch 0 w1 of
                 (success_count, w2) \<Rightarrow>
                   w2\<lparr>fallback_reports := fallback_reports w2 @
                        [(success_count, length standardized_batch)]\<rparr>))"

fun load_batches :: "env \<Rightarrow> string \<Rightarrow> row list list \<Rightarrow> world \<Rightarrow> world" where
  "load_batches env table_name [] w = w"
| "load_batches env table_name (batch # rest) w =
     load_batches env table_name rest (insert_batch env table_name batch w)"

section \<open>The sync of one object type\<close>

text \<open>
  \<^verbatim>\<open>export_object_type\<close> from line 258 on: fetch, transform, load. Line 301 divides
  by \<^verbatim>\<open>batch_size\<close>; a negative step makes the range of line 303 empty.
\<close>

definition fetch_and_load ::
  "env \<Rightarrow> string \<Rightarrow> string \<Rightarrow> string list \<Rightarrow> int \<Rightarrow> int \<Rightarrow> world \<Rightarrow> ((exn + unit) \<times> world) option" where
  "fetch_and_load env object_type table_name properties since batch_size w =
     (case get_hubspot_objects env object_type properties batch_size (Some since) w of
        None \<Rightarrow> None
      | Some (objects, w1) \<Rightarrow>
          if objects = [] then Some (Inr (), w1)
          else (case prepare_records env properties objects [] of
                  Inl e \<Rightarrow> Some (Inl e, w1)
                | Inr records \<Rightarrow>
                    if records = [] then Some (Inr (), w1)
                    else if batch_size = 0 then Some (Inl ZeroDivisionError, w1)
                    else Some (Inr (),
                           load_batches env table_name (batches (nat batch_size) records) w1)))"

text \<open>
  Lines 251 to 256: the provisioning gate. The sync goes on only when the table
  exists, or when \<^verbatim>\<open>create_supabase_table\<close> returns a true value.
\<close>

definition gate_and_load ::
  "env \<Rightarrow> string \<Rightarrow> string \<Rightarrow> string list \<Rightarrow> int \<Rightarrow> int \<Rightarrow> world \<Rightarrow> ((exn + unit) \<times> world) option" where
  "gate_and_load env object_type table_name properties since batch_size w =
     (if \<not> check_supabase_table_exists env table_name then
        (case create_supabase_table env table_name properties w of
           (Inl e, w1) \<Rightarrow> Some (Inl e, w1)
         | (Inr created, w1) \<Rightarrow>
             if \<not> created then Some (Inr (), w1)
             else fetch_and_load env object_type table_name properties since batch_size w1)
      else fetch_and_load env object_type table_name properties since batch_size w)"

text \<open>
  \<^verbatim>\<open>export_object_type\<close>, lines 229 to 334. The result is \<open>None\<close> when the fetch
  does not end on the answers listed, \<open>Inl\<close> when the function raises, \<open>Inr ()\<close> when
  it returns; the world is the one the function leaves behind either way.
\<close>

definition export_object_type ::
  "env \<Rightarrow> string \<Rightarrow> string list option \<Rightarrow> int \<Rightarrow> world \<Rightarrow> ((exn + unit) \<times> world) option" where
  "export_object_type env object_type specific_properties batch_size w =
     (let table_name = ''hubspot_'' @ object_type;
          w0 = create_sync_state_table env w;
          since = fst (get_last_sync_time env object_type w0)
      in case specific_properties of
           None \<Rightarrow>
             (let properties = get_all_properties env object_type
              in if properties = [] then Some (Inr (), w0)
                 else gate_and_load env object_type table_name properties since batch_size w0)
         | Some properties \<Rightarrow>
             gate_and_load env object_type table_name properties since batch_size w0)"

section \<open>The run\<close>

text \<open>
  The body of the loop of \<^verbatim>\<open>main\<close>, lines 361 to 369: the watermark is written
  after \<^verbatim>\<open>export_object_type\<close> has returned, and not when it has raised.
\<close>

definition process_object_type :: "env \<Rightarrow> string \<Rightarrow> string list option \<Rightarrow> world \<Rightarrow> world option" where
  "process_object_type env object_type properties w =
     (case export_object_type env object_type properties 100 w of
        None \<Rightarrow> None
      | Some (Inl e, w1) \<Rightarrow> Some w1
      | Some (Inr u, w1) \<Rightarrow> Some (update_sync_state env object_type (now_sync env) [] w1))"

definition OBJECTS_TO_EXPORT :: "(string \<times> string list) list" where
  "OBJECTS_TO_EXPORT =
     [(''contacts'',
         [''email'', ''firstname'', ''lastname'', ''phone'', ''company'', ''hs_object_id'',
          ''createdate'', ''lastmodifieddate'', ''hs_lead_status'', ''lifecyclestage'']),
      (''companies'',
         [''name'', ''domain'', ''phone'', ''hs_object_id'', ''createdate'',
          ''lastmodifieddate'', ''industry'', ''city'', ''state'', ''country'', ''website'']),
      (''deals'',
         [''dealname'', ''dealstage'', ''pipeline'', ''amount'', ''closedate'',
          ''createdate'', ''hs_object_id'', ''lastmodifieddate'', ''hubspot_owner_id''])]"

fun run_objects :: "(string \<Rightarrow> env) \<Rightarrow> (string \<times> string list) list \<Rightarrow> world \<Rightarrow> world option" where
  "run_objects envs [] w = Some w"
| "run_objects envs ((object_type, properties) # rest) w =
     (case process_object_type (envs object_type) object_type (Some properties) w of
        None \<Rightarrow> None
      | Some w1 \<Rightarrow> run_objects envs rest w1)"

definition main :: "(string \<Rightarrow> env) \<Rightarrow> world \<Rightarrow> world option" where
  "main envs w = run_objects envs OBJECTS_TO_EXPORT w"

section \<open>Sample inputs\<close>

text \<open>
  One contact as the service returns it, pages holding it, and the answers of a
  service in trouble. The first page names a next page; the last page does not.
\<close>

definition sample_contact :: pyval where
  "sample_contact =
     PDict [(''id'', PStr ''1''),
            (''createdAt'', PStr ''2023-12-31T10:00:00Z''),
            (''updatedAt'', PStr ''2024-01-01T12:00:00Z''),
            (''archived'', PBool False),
            (''properties'', PDict [(''email'', PStr ''a@b.com''), (''custom_field'', PStr ''x'')])]"

definition first_page :: http_result where
  "first_page =
     Response 200 (Inr 10)
       (Inr (PDict [(''results'', PList [sample_contact]),
                    (''paging'', PDict [(''next'', PDict [(''after'', PStr ''100'')])])]))"

definition last_page :: http_result where
  "last_page = Response 200 (Inr 10) (Inr (PDict [(''results'', PList [sample_contact])]))"

definition unauthorized :: http_result where
  "unauthorized = Response 401 (Inr 10) (Inl JSONDecodeError)"

text \<open>
  A run on 2 January 2024 (UTC) against a store whose watermark for contacts is
  1 January 2024, 00:00. The library functions are given on the values that occur;
  the character tables are the ASCII ones, all samples being ASCII.
\<close>

definition sample_env :: env where
  "sample_env =
     \<lparr>isalnum = ascii_isalnum,
      lower = map ascii_lower_char,
      fromisoformat =
        (\<lambda>v. if v = PStr ''2024-01-01T00:00:00+00:00'' then Inr 1704067200000000
              else Inl ValueError),
      render_timestamptz =
        (\<lambda>t. if t = 1704067200000000 then PStr ''2024-01-01T00:00:00+00:00'' else PNone),
      py_repr = (\<lambda>v. if v = PInt 42 then ''42'' else []),
      read_fails = False,
      now_read = 1704153600000000,
      discovered_properties = Inr [''email''],
      table_exists = (\<lambda>t. True),
      file_write_ok = (\<lambda>f. True),
      responses = [last_page],
      upsert_ok = (\<lambda>n t rows. True),
      now_sync = 1704153601000000,
      now_write = 1704153602000000,
      state_write_ok = True\<rparr>"

definition empty_world :: world where
  "empty_world =
     \<lparr>sync_state = Map.empty, files = Map.empty, requests = [], upserts = [],
      fallback_reports = []\<rparr>"

definition synced_world :: world where
  "synced_world =
     empty_world\<lparr>sync_state :=
       [''contacts'' \<mapsto>
          \<lparr>last_sync_time = 1704067200000000, sync_cursor = [], updated_at = 1704067200000000\<rparr>]\<rparr>"

text \<open>Three rows with the key sets a b, a c and a.\<close>

definition sample_batch :: "row list" where
  "sample_batch =
     [[''a'' \<mapsto> PStr ''1'', ''b'' \<mapsto> PStr ''2''],
      [''a'' \<mapsto> PStr ''3'', ''c'' \<mapsto> PStr ''4''],
      [''a'' \<mapsto> PStr ''5'']]"

text \<open>
  A destination that refuses every call whose rows include one with the value 3 under
  the key a: the second row of the sample batch is malformed, the others are not.
\<close>

definition flaky_env :: env where
  "flaky_env =
     sample_env\<lparr>upsert_ok := (\<lambda>n t rows. list_all (\<lambda>r. r ''a'' \<noteq> Some (PStr ''3'')) rows)\<rparr>"

text \<open>A second batch, of the one well-formed row over the key a.\<close>

definition clean_batch :: "row list" where
  "clean_batch = [[''a'' \<mapsto> PStr ''5'']]"

text \<open>A destination in which no table has been created yet.\<close>

definition unprovisioned_env :: env where
  "unprovisioned_env = sample_env\<lparr>table_exists := (\<lambda>t. False)\<rparr>"



text \<open>The row the transformer makes of the sample contact for the declared property email.\<close>

definition sample_row :: row where
  "sample_row =
     [''hubspot_id'' \<mapsto> PStr ''1'',
      ''created_at'' \<mapsto> PStr ''2023-12-31T10:00:00Z'',
      ''updated_at'' \<mapsto> PStr ''2024-01-01T12:00:00Z'',
      ''archived'' \<mapsto> PBool False,
      ''raw_properties'' \<mapsto> PDict [(''email'', PStr ''a@b.com''), (''custom_field'', PStr ''x'')],
      ''email'' \<mapsto> PStr ''a@b.com'']"

text \<open>
  A service whose first page names a next page, and whose answer to the request for
  that page is lost (\<^verbatim>\<open>requests.get\<close> raises), or is a refusal with status 401.
\<close>

definition interrupted_env :: env where
  "interrupted_env = sample_env\<lparr>responses := [first_page, RequestFailed]\<rparr>"

definition unauthorized_env :: env where
  "unauthorized_env = sample_env\<lparr>responses := [first_page, unauthorized]\<rparr>"

text \<open>
  For stating what the transformer does: \<open>prop_value ps prop\<close> is the value of
  \<^verbatim>\<open>props.get(prop)\<close> on the properties dictionary \<open>ps\<close>, and
  \<open>flattened env ps properties\<close> are the column names of the declared properties whose value
  is present and not \<^verbatim>\<open>None\<close>.
\<close>

definition prop_value :: "(string \<times> pyval) list \<Rightarrow> string \<Rightarrow> pyval" where
  "prop_value ps prop = (case map_of ps prop of None \<Rightarrow> PNone | Some v \<Rightarrow> v)"

definition flattened :: "env \<Rightarrow> (string \<times> pyval) list \<Rightarrow> string list \<Rightarrow> string set" where
  "flattened env ps properties = sanitize env ` {prop \<in> set properties. prop_value ps prop \<noteq> PNone}"

text \<open>A contact one of whose properties is itself named raw_properties.\<close>

definition colliding_contact :: pyval where
  "colliding_contact =
     PDict [(''id'', PStr ''2''),
            (''properties'', PDict [(''raw_properties'', PStr ''x''), (''email'', PStr ''a@b.com'')])]"

section \<open>Column-name sanitization\<close>

text \<open>Joining one-character strings is mapping over the characters.\<close>

lemma concat_singletons:
  "concat (map (\<lambda>c. if P c then [c] else ''_'') p) = map (\<lambda>c. if P c then c else CHR ''_'') p"
  by (induction p) simp_all

lemma ascii_underscore: "ascii CHR ''_'' \<and> ascii_lower_char CHR ''_'' = CHR ''_''"
  by (simp add: ascii_def ascii_lower_char_def)

text \<open>On an ASCII name only the ASCII part of the tables is consulted.\<close>

lemma sanitize_on_ascii:
  assumes tables: "ascii_tables env" and name: "list_all ascii p"
  shows "sanitize env p = map (\<lambda>c. if ascii_isalnum c then ascii_lower_char c else CHR ''_'') p"
proof -
  from tables have alnum: "ascii c \<Longrightarrow> isalnum env c = ascii_isalnum c" for c
    by (simp add: ascii_tables_def)
  from tables have low: "list_all ascii s \<Longrightarrow> lower env s = map ascii_lower_char s" for s
    by (simp add: ascii_tables_def)
  from name have same: "map (\<lambda>c. if isalnum env c then c else CHR ''_'') p
                          = map (\<lambda>c. if ascii_isalnum c then c else CHR ''_'') p"
    by (induction p) (simp_all add: alnum)
  from name have "list_all ascii (map (\<lambda>c. if ascii_isalnum c then c else CHR ''_'') p)"
    by (induction p) (simp_all add: ascii_underscore)
  from low [OF this] have "sanitize env p
      = map ascii_lower_char (map (\<lambda>c. if ascii_isalnum c then c else CHR ''_'') p)"
    by (simp add: sanitize_def concat_singletons same)
  also have "\<dots> = map (\<lambda>c. if ascii_isalnum c then ascii_lower_char c else CHR ''_'') p"
    by (induction p) (simp_all add: ascii_underscore)
  finally show ?thesis .
qed

text \<open>The sample environments carry the ASCII tables.\<close>

lemma sanitize_with_ascii_tables:
  assumes "isalnum env = ascii_isalnum" and "lower env = map ascii_lower_char"
  shows "sanitize env p = map (\<lambda>c. if ascii_isalnum c then ascii_lower_char c else CHR ''_'') p"
proof -
  have "map ascii_lower_char (map (\<lambda>c. if ascii_isalnum c then c else CHR ''_'') p)
          = map (\<lambda>c. if ascii_isalnum c then ascii_lower_char c else CHR ''_'') p"
    by (induction p) (simp_all add: ascii_underscore)
  with assms show ?thesis
    by (simp add: sanitize_def concat_singletons)
qed

lemma sanitize_samples:
  assumes "isalnum env = ascii_isalnum" and "lower env = map ascii_lower_char"
  shows "sanitize env ''email'' = ''email''"
    and "sanitize env ''raw_properties'' = ''raw_properties''"
    and "sanitize env ''Lead Status!'' = ''lead_status_''"
proof -
  have "map (\<lambda>c. if ascii_isalnum c then ascii_lower_char c else CHR ''_'') ''email'' = ''email''"
    by code_simp
  then show "sanitize env ''email'' = ''email''"
    by (simp only: sanitize_with_ascii_tables [OF assms])
  have "map (\<lambda>c. if ascii_isalnum c then ascii_lower_char c else CHR ''_'') ''raw_properties''
          = ''raw_properties''"
    by code_simp
  then show "sanitize env ''raw_properties'' = ''raw_properties''"
    by (simp only: sanitize_with_ascii_tables [OF assms])
  have "map (\<lambda>c. if ascii_isalnum c then ascii_lower_char c else CHR ''_'') ''Lead Status!''
          = ''lead_status_''"
    by code_simp
  then show "sanitize env ''Lead Status!'' = ''lead_status_''"
    by (simp only: sanitize_with_ascii_tables [OF assms])
qed

text \<open>
  Claim C8. The column name of a property is the property name with every character
  that is not alphanumeric replaced by an underscore, and the result in lower case,
  alphanumeric and lower case being Python's own: the tables of the environment, whatever
  they say outside ASCII. On a name of ASCII characters this is the map that keeps
  digits and small letters, turns capitals into small letters and everything else into
  an underscore; the property \<^verbatim>\<open>Lead Status!\<close> becomes \<^verbatim>\<open>lead_status_\<close>. The
  columns of the \<^verbatim>\<open>CREATE TABLE\<close> script and the keys the row flattening writes are
  made by the same function.
\<close>

theorem sanitize_column_name:
  "sanitize env p = lower env (map (\<lambda>c. if isalnum env c then c else CHR ''_'') p)
   \<and> (ascii_tables env \<and> list_all ascii p \<longrightarrow>
        sanitize env p = map (\<lambda>c. if ascii_isalnum c then ascii_lower_char c else CHR ''_'') p)
   \<and> (ascii_tables env \<longrightarrow> sanitize env ''Lead Status!'' = ''lead_status_'')
   \<and> table_columns env props =
       basic_columns @ map (\<lambda>p. [CHR 0x22] @ sanitize env p @ [CHR 0x22] @ '' TEXT'') props
   \<and> add_properties env (PDict kvs) [p] record =
       Inr (case map_of kvs p of
              None \<Rightarrow> record
            | Some v \<Rightarrow>
                if v = PNone then record else record(sanitize env p \<mapsto> PStr (py_str env v)))"
proof -
  have a: "sanitize env p = lower env (map (\<lambda>c. if isalnum env c then c else CHR ''_'') p)"
    by (simp add: sanitize_def concat_singletons)
  have b: "sanitize env ''Lead Status!'' = ''lead_status_''" if "ascii_tables env"
  proof -
    have name: "list_all ascii ''Lead Status!''"
      by code_simp
    have "map (\<lambda>c. if ascii_isalnum c then ascii_lower_char c else CHR ''_'') ''Lead Status!''
            = ''lead_status_''"
      by code_simp
    then show ?thesis
      by (simp only: sanitize_on_ascii [OF that name])
  qed
  have c: "table_columns env props =
       basic_columns @ map (\<lambda>p. [CHR 0x22] @ sanitize env p @ [CHR 0x22] @ '' TEXT'') props"
    by (simp add: table_columns_def property_column_def)
  have d: "add_properties env (PDict kvs) [p] record =
       Inr (case map_of kvs p of
              None \<Rightarrow> record
            | Some v \<Rightarrow>
                if v = PNone then record else record(sanitize env p \<mapsto> PStr (py_str env v)))"
    by (simp split: option.splits)
  from a b c d sanitize_on_ascii [of env p] show ?thesis by blast
qed

text \<open>With the ASCII tables of the sample environment.\<close>

theorem sanitize_column_name_witness:
  "ascii_tables sample_env
   \<and> list_all ascii ''hs_Lead Status''
   \<and> sanitize sample_env ''hs_Lead Status'' = ''hs_lead_status''
   \<and> sanitize sample_env ''Lead Status!'' = ''lead_status_''"
proof -
  have t: "ascii_tables sample_env"
    by (simp add: ascii_tables_def sample_env_def)
  have n: "list_all ascii ''hs_Lead Status''"
    by code_simp
  have m: "map (\<lambda>c. if ascii_isalnum c then ascii_lower_char c else CHR ''_'') ''hs_Lead Status''
             = ''hs_lead_status''"
    by code_simp
  from sanitize_column_name [of sample_env "''hs_Lead Status''"] t n
  have "sanitize sample_env ''hs_Lead Status''
          = map (\<lambda>c. if ascii_isalnum c then ascii_lower_char c else CHR ''_'') ''hs_Lead Status''"
    and "sanitize sample_env ''Lead Status!'' = ''lead_status_''"
    by blast+
  with t n m show ?thesis by simp
qed

section \<open>The default lookback\<close>

text \<open>
  Claim C9. When the store holds no watermark for the object type, the read returns the
  instant exactly 24 hours before the current time, and the empty cursor. This holds
  whether or not the query itself succeeds.
\<close>

theorem default_lookback_without_record:
  "sync_state w object_type = None \<Longrightarrow>
   get_last_sync_time env object_type w = (now_read env - 24 * 3600 * 1000000, PStr [])"
  by (simp add: get_last_sync_time_def select_sync_state_def default_lookback_def
      timedelta_days_def)

theorem default_lookback_without_record_witness:
  "sync_state empty_world ''contacts'' = None
   \<and> get_last_sync_time sample_env ''contacts'' empty_world = (1704067200000000, PStr [])"
  using default_lookback_without_record [of empty_world "''contacts''" sample_env]
  by (simp add: empty_world_def sample_env_def)

text \<open>
  Claim C10. The same default is returned when the query on the store raises, and when
  the stored time does not parse: the exception is swallowed, and the watermark the run
  works with is 24 hours before now, whatever the store holds.
\<close>

theorem default_lookback_on_read_error:
  "read_fails env
   \<or> (\<exists>r e. sync_state w object_type = Some r
          \<and> fromisoformat env (render_timestamptz env (last_sync_time r)) = Inl e) \<Longrightarrow>
   get_last_sync_time env object_type w = (now_read env - 24 * 3600 * 1000000, PStr [])"
  by (auto simp add: get_last_sync_time_def select_sync_state_def default_lookback_def
      timedelta_days_def)

text \<open>
  The store holds 1 January for contacts, and a read that succeeds returns it. On
  6 January a read that fails returns 5 January.
\<close>

theorem default_lookback_on_read_error_witness:
  "read_fails (sample_env\<lparr>read_fails := True\<rparr>)
   \<and> sync_state synced_world ''contacts'' =
       Some \<lparr>last_sync_time = 1704067200000000, sync_cursor = [],
             updated_at = 1704067200000000\<rparr>
   \<and> get_last_sync_time sample_env ''contacts'' synced_world = (1704067200000000, PStr [])
   \<and> get_last_sync_time (sample_env\<lparr>read_fails := True, now_read := 1704499200000000\<rparr>)
         ''contacts'' synced_world
       = (1704412800000000, PStr [])"
  using default_lookback_on_read_error
    [of "sample_env\<lparr>read_fails := True, now_read := 1704499200000000\<rparr>" synced_world
        "''contacts''"]
  by (simp add: synced_world_def empty_world_def sample_env_def get_last_sync_time_def
      select_sync_state_def)

section \<open>Batch rectangularization\<close>

text \<open>The key set of a batch is the union of the key sets of its records.\<close>

lemma foldl_keys: "foldl (\<lambda>keys record. keys \<union> dom record) A batch = A \<union> (\<Union>r \<in> set batch. dom r)"
  by (induction batch arbitrary: A) auto

lemma all_keys_union: "all_keys batch = (\<Union>r \<in> set batch. dom r)"
  by (simp add: all_keys_def foldl_keys)

lemma dom_standardized_record: "dom (standardized_record keys record) = keys"
  by (auto simp add: standardized_record_def dom_def)

text \<open>
  Claim C5. The padded batch is rectangular: it has a row for every input row, in the
  same order; the keys of every padded row are the union of the keys of all input rows
  of the batch; a key the input row has keeps its value, and a key it lacks holds
  \<^verbatim>\<open>None\<close>.
\<close>

theorem standardize_batch_rectangular:
  "length (standardize_batch batch) = length batch
   \<and> (\<forall>i < length batch.
        dom (standardize_batch batch ! i) = (\<Union>r \<in> set batch. dom r)
        \<and> (\<forall>k \<in> (\<Union>r \<in> set batch. dom r).
              (standardize_batch batch ! i) k
                = (if k \<in> dom (batch ! i) then (batch ! i) k else Some PNone)))"
proof -
  have len: "length (standardize_batch batch) = length batch"
    by (simp add: standardize_batch_def)
  have rows: "dom (standardize_batch batch ! i) = (\<Union>r \<in> set batch. dom r)
        \<and> (\<forall>k \<in> (\<Union>r \<in> set batch. dom r).
              (standardize_batch batch ! i) k
                = (if k \<in> dom (batch ! i) then (batch ! i) k else Some PNone))"
    if "i < length batch" for i
  proof -
    from that have nth: "standardize_batch batch ! i
        = standardized_record (\<Union>r \<in> set batch. dom r) (batch ! i)"
      by (simp add: standardize_batch_def all_keys_union)
    have d: "dom (standardize_batch batch ! i) = (\<Union>r \<in> set batch. dom r)"
      unfolding nth by (rule dom_standardized_record)
    have v: "(standardize_batch batch ! i) k
                = (if k \<in> dom (batch ! i) then (batch ! i) k else Some PNone)"
      if "k \<in> (\<Union>r \<in> set batch. dom r)" for k
      unfolding nth using that
      by (cases "(batch ! i) k") (simp_all add: standardized_record_def dom_def)
    from d v show ?thesis by blast
  qed
  from len rows show ?thesis by blast
qed

text \<open>
  Rows over the key sets a b, a c and a all become rows over a b c.
\<close>

theorem standardize_batch_rectangular_witness:
  "length sample_batch = 3
   \<and> dom (standardize_batch sample_batch ! 0) = {''a'', ''b'', ''c''}
   \<and> dom (standardize_batch sample_batch ! 1) = {''a'', ''b'', ''c''}
   \<and> dom (standardize_batch sample_batch ! 2) = {''a'', ''b'', ''c''}
   \<and> (standardize_batch sample_batch ! 0) ''c'' = Some PNone
   \<and> (standardize_batch sample_batch ! 1) ''b'' = Some PNone
   \<and> (standardize_batch sample_batch ! 1) ''c'' = Some (PStr ''4'')
   \<and> (standardize_batch sample_batch ! 2) ''a'' = Some (PStr ''5'')
   \<and> (standardize_batch sample_batch ! 2) ''b'' = Some PNone"
proof -
  have len: "length sample_batch = 3"
    by (simp add: sample_batch_def)
  have keys: "(\<Union>r \<in> set sample_batch. dom r) = {''a'', ''b'', ''c''}"
    by (auto simp add: sample_batch_def)
  note r = standardize_batch_rectangular [of sample_batch, unfolded keys len]
  from r have r0: "dom (standardize_batch sample_batch ! 0) = {''a'', ''b'', ''c''}
      \<and> (\<forall>k \<in> {''a'', ''b'', ''c''}. (standardize_batch sample_batch ! 0) k
                = (if k \<in> dom (sample_batch ! 0) then (sample_batch ! 0) k else Some PNone))"
    by simp
  from r have r1: "dom (standardize_batch sample_batch ! 1) = {''a'', ''b'', ''c''}
      \<and> (\<forall>k \<in> {''a'', ''b'', ''c''}. (standardize_batch sample_batch ! 1) k
                = (if k \<in> dom (sample_batch ! 1) then (sample_batch ! 1) k else Some PNone))"
    by simp
  from r have r2: "dom (standardize_batch sample_batch ! 2) = {''a'', ''b'', ''c''}
      \<and> (\<forall>k \<in> {''a'', ''b'', ''c''}. (standardize_batch sample_batch ! 2) k
                = (if k \<in> dom (sample_batch ! 2) then (sample_batch ! 2) k else Some PNone))"
    by simp
  from r0 have "(standardize_batch sample_batch ! 0) ''c'' = Some PNone"
    by (simp add: sample_batch_def)
  moreover from r1 have "(standardize_batch sample_batch ! 1) ''b'' = Some PNone"
      and "(standardize_batch sample_batch ! 1) ''c'' = Some (PStr ''4'')"
    by (simp_all add: sample_batch_def)
  moreover from r2 have "(standardize_batch sample_batch ! 2) ''a'' = Some (PStr ''5'')"
      and "(standardize_batch sample_batch ! 2) ''b'' = Some PNone"
    by (simp_all add: sample_batch_def)
  ultimately show ?thesis using len r0 r1 r2 by simp
qed

section \<open>Row-by-row fallback\<close>

text \<open>
  The calls of the row-by-row loop: one per record, in order, each with the answer the
  destination gives to that call, and the count returned is the number of successes.
\<close>

lemma insert_one_by_one_calls:
  "\<exists>calls. insert_one_by_one env t rows c w
             = (c + length (filter succeeded calls), w\<lparr>upserts := upserts w @ calls\<rparr>)
         \<and> map payload calls = map (\<lambda>r. [r]) rows
         \<and> (\<forall>i < length rows. succeeded (calls ! i)
               = upsert_ok env (length (upserts w) + i) t [rows ! i])
         \<and> list_all (\<lambda>x. site x = OneByOne \<and> target x = t) calls"
proof (induction rows arbitrary: c w)
  case Nil
  show ?case by (rule exI [of _ "[]"]) simp
next
  case (Cons r rest)
  define ok where "ok = upsert_ok env (length (upserts w)) t [r]"
  define call where "call = \<lparr>site = OneByOne, target = t, payload = [r], succeeded = ok\<rparr>"
  define w' where "w' = w\<lparr>upserts := upserts w @ [call]\<rparr>"
  define c' where "c' = (if ok then c + 1 else c)"
  from Cons.IH [of c' w'] obtain calls where
    run: "insert_one_by_one env t rest c' w'
            = (c' + length (filter succeeded calls), w'\<lparr>upserts := upserts w' @ calls\<rparr>)"
    and pay: "map payload calls = map (\<lambda>r. [r]) rest"
    and out: "\<forall>i < length rest. succeeded (calls ! i)
               = upsert_ok env (length (upserts w') + i) t [rest ! i]"
    and sites: "list_all (\<lambda>x. site x = OneByOne \<and> target x = t) calls"
    by blast
  have step: "insert_one_by_one env t (r # rest) c w = insert_one_by_one env t rest c' w'"
    by (simp add: ok_def call_def w'_def c'_def Let_def)
  have 1: "insert_one_by_one env t (r # rest) c w
             = (c + length (filter succeeded (call # calls)),
                w\<lparr>upserts := upserts w @ call # calls\<rparr>)"
    unfolding step run by (simp add: c'_def w'_def call_def)
  have 2: "map payload (call # calls) = map (\<lambda>r. [r]) (r # rest)"
    using pay by (simp add: call_def)
  have 3: "succeeded ((call # calls) ! i)
             = upsert_ok env (length (upserts w) + i) t [(r # rest) ! i]"
    if "i < length (r # rest)" for i
  proof (cases i)
    case 0
    then show ?thesis by (simp add: call_def ok_def)
  next
    case (Suc j)
    with that out show ?thesis by (simp add: w'_def)
  qed
  have 4: "list_all (\<lambda>x. site x = OneByOne \<and> target x = t) (call # calls)"
    using sites by (simp add: call_def)
  from 1 2 3 4 show ?case by blast
qed

lemma insert_batch_upserts:
  "\<exists>ok calls. upserts (insert_batch env t batch w)
       = upserts w @ \<lparr>site = Bulk, target = t, payload = standardize_batch batch, succeeded = ok\<rparr> # calls
     \<and> list_all (\<lambda>x. site x = OneByOne) calls"
proof (cases "upsert_ok env (length (upserts w)) t (standardize_batch batch)")
  case True
  then have "upserts (insert_batch env t batch w)
       = upserts w @ \<lparr>site = Bulk, target = t, payload = standardize_batch batch, succeeded = True\<rparr> # []"
    by (simp add: insert_batch_def Let_def)
  then show ?thesis
    by (intro exI [of _ True] exI [of _ "[]"]) simp
next
  case False
  define w1 where "w1 = w\<lparr>upserts := upserts w @
      [\<lparr>site = Bulk, target = t, payload = standardize_batch batch, succeeded = False\<rparr>]\<rparr>"
  from insert_one_by_one_calls [of env t "standardize_batch batch" 0 w1] obtain calls where
    run: "insert_one_by_one env t (standardize_batch batch) 0 w1
            = (0 + length (filter succeeded calls), w1\<lparr>upserts := upserts w1 @ calls\<rparr>)"
    and sites: "list_all (\<lambda>x. site x = OneByOne \<and> target x = t) calls"
    by blast
  from False have "upserts (insert_batch env t batch w)
       = upserts w @ \<lparr>site = Bulk, target = t, payload = standardize_batch batch, succeeded = False\<rparr> # calls"
    using run by (simp add: insert_batch_def Let_def w1_def)
  moreover from sites have "list_all (\<lambda>x. site x = OneByOne) calls"
    by (induction calls) simp_all
  ultimately show ?thesis by blast
qed

lemma load_batches_bulk_calls:
  "\<exists>new. upserts (load_batches env t bs w) = upserts w @ new
       \<and> map payload (filter (\<lambda>x. site x = Bulk) new) = map standardize_batch bs"
proof (induction bs arbitrary: w)
  case Nil
  show ?case by (rule exI [of _ "[]"]) simp
next
  case (Cons b bs)
  from insert_batch_upserts [of env t b w] obtain ok calls where
    first: "upserts (insert_batch env t b w)
       = upserts w @ \<lparr>site = Bulk, target = t, payload = standardize_batch b, succeeded = ok\<rparr> # calls"
    and sites: "list_all (\<lambda>x. site x = OneByOne) calls"
    by blast
  from Cons.IH [of "insert_batch env t b w"] obtain new where
    rest: "upserts (load_batches env t bs (insert_batch env t b w))
             = upserts (insert_batch env t b w) @ new"
    and bulk: "map payload (filter (\<lambda>x. site x = Bulk) new) = map standardize_batch bs"
    by blast
  from sites have none: "filter (\<lambda>x. site x = Bulk) calls = []"
    by (induction calls) simp_all
  let ?new = "\<lparr>site = Bulk, target = t, payload = standardize_batch b, succeeded = ok\<rparr> # calls @ new"
  have "upserts (load_batches env t (b # bs) w) = upserts w @ ?new"
    using rest first by simp
  moreover have "map payload (filter (\<lambda>x. site x = Bulk) ?new) = map standardize_batch (b # bs)"
    using bulk none by simp
  ultimately show ?case by blast
qed

text \<open>Loading one list of batches after another is loading their concatenation.\<close>

lemma load_batches_append:
  "load_batches env t (xs @ ys) w = load_batches env t ys (load_batches env t xs w)"
  by (induction xs arbitrary: w) simp_all

text \<open>
  What one turn of the batch loop does after a bulk upsert that fails: the calls for
  the rows, and the report.
\<close>

lemma insert_batch_fallback:
  assumes fails: "\<not> upsert_ok env (length (upserts w)) t (standardize_batch batch)"
  shows "\<exists>calls.
         upserts (insert_batch env t batch w)
           = upserts w
             @ \<lparr>site = Bulk, target = t, payload = standardize_batch batch, succeeded = False\<rparr>
             # calls
         \<and> map payload calls = map (\<lambda>r. [r]) (standardize_batch batch)
         \<and> list_all (\<lambda>x. site x = OneByOne \<and> target x = t) calls
         \<and> (\<forall>i < length batch. succeeded (calls ! i)
               = upsert_ok env (length (upserts w) + 1 + i) t [standardize_batch batch ! i])
         \<and> fallback_reports (insert_batch env t batch w)
             = fallback_reports w @ [(length (filter succeeded calls), length batch)]
         \<and> length (filter succeeded calls) \<le> length batch"
proof -
  define w1 where "w1 = w\<lparr>upserts := upserts w @
    [\<lparr>site = Bulk, target = t, payload = standardize_batch batch, succeeded = False\<rparr>]\<rparr>"
  from insert_one_by_one_calls [of env t "standardize_batch batch" 0 w1] obtain calls where
    run: "insert_one_by_one env t (standardize_batch batch) 0 w1
            = (0 + length (filter succeeded calls), w1\<lparr>upserts := upserts w1 @ calls\<rparr>)"
    and pay: "map payload calls = map (\<lambda>r. [r]) (standardize_batch batch)"
    and out: "\<forall>i < length (standardize_batch batch). succeeded (calls ! i)
             = upsert_ok env (length (upserts w1) + i) t [standardize_batch batch ! i]"
    and sites: "list_all (\<lambda>x. site x = OneByOne \<and> target x = t) calls"
    by blast
  have len: "length (standardize_batch batch) = length batch"
    by (simp add: standardize_batch_def)
  from pay have "length calls = length batch"
    using len by (metis length_map)
  then have le: "length (filter succeeded calls) \<le> length batch"
    by (metis length_filter_le)
  have ups: "upserts (insert_batch env t batch w)
         = upserts w
           @ \<lparr>site = Bulk, target = t, payload = standardize_batch batch, succeeded = False\<rparr>
           # calls"
    using fails run by (simp add: insert_batch_def Let_def w1_def)
  have rep: "fallback_reports (insert_batch env t batch w)
           = fallback_reports w @ [(length (filter succeeded calls), length batch)]"
    using fails run len by (simp add: insert_batch_def Let_def w1_def)
  have outs: "\<forall>i < length batch. succeeded (calls ! i)
             = upsert_ok env (length (upserts w) + 1 + i) t [standardize_batch batch ! i]"
    using out len by (simp add: w1_def)
  from ups pay sites outs rep le show ?thesis by blast
qed

text \<open>Reports are only ever added.\<close>

lemma insert_batch_reports:
  "\<exists>more. fallback_reports (insert_batch env t batch w) = fallback_reports w @ more"
proof (cases "upsert_ok env (length (upserts w)) t (standardize_batch batch)")
  case True
  then have "fallback_reports (insert_batch env t batch w) = fallback_reports w @ []"
    by (simp add: insert_batch_def Let_def)
  then show ?thesis by (rule exI)
next
  case False
  from insert_batch_fallback [OF False] show ?thesis by blast
qed

lemma load_batches_reports:
  "\<exists>more. fallback_reports (load_batches env t bs w) = fallback_reports w @ more"
proof (induction bs arbitrary: w)
  case Nil
  show ?case by simp
next
  case (Cons b bs)
  from insert_batch_reports [of env t b w] obtain m1 where
    1: "fallback_reports (insert_batch env t b w) = fallback_reports w @ m1"
    by blast
  from Cons.IH [of "insert_batch env t b w"] obtain m2 where
    2: "fallback_reports (load_batches env t bs (insert_batch env t b w))
          = fallback_reports (insert_batch env t b w) @ m2"
    by blast
  from 1 2 have "fallback_reports (load_batches env t (b # bs) w) = fallback_reports w @ (m1 @ m2)"
    by simp
  then show ?case by (rule exI)
qed

text \<open>
  Claim C6. Take a load of the batches \<open>pre\<close>, then \<open>batch\<close>, then \<open>post\<close>, and let
  the bulk upsert of \<open>batch\<close> fail when its turn comes. Then the calls of the whole load
  are: the calls of \<open>pre\<close>; the failed bulk call; one upsert call for every row of the
  padded batch, in order, each with the answer the destination gives to that very call,
  whatever the calls before it answered; and then the calls of the batches after, with a
  bulk call for each of them. The report for the batch is the number of its row calls
  that succeeded, out of the number of rows, and is at most that number. And whatever
  fails, a load sends one bulk upsert for every batch, in order.
\<close>

theorem bulk_failure_falls_back_row_by_row:
  "(\<not> upsert_ok env (length (upserts (load_batches env t pre w))) t (standardize_batch batch) \<longrightarrow>
      (\<exists>calls later more.
         upserts (load_batches env t (pre @ batch # post) w)
           = upserts (load_batches env t pre w)
             @ \<lparr>site = Bulk, target = t, payload = standardize_batch batch, succeeded = False\<rparr>
             # calls @ later
         \<and> map payload calls = map (\<lambda>r. [r]) (standardize_batch batch)
         \<and> list_all (\<lambda>x. site x = OneByOne \<and> target x = t) calls
         \<and> (\<forall>i < length batch. succeeded (calls ! i)
               = upsert_ok env (length (upserts (load_batches env t pre w)) + 1 + i) t
                   [standardize_batch batch ! i])
         \<and> map payload (filter (\<lambda>x. site x = Bulk) later) = map standardize_batch post
         \<and> fallback_reports (load_batches env t (pre @ batch # post) w)
             = fallback_reports (load_batches env t pre w)
               @ (length (filter succeeded calls), length batch) # more
         \<and> length (filter succeeded calls) \<le> length batch))
   \<and> (\<exists>new. upserts (load_batches env t bs w) = upserts w @ new
          \<and> map payload (filter (\<lambda>x. site x = Bulk) new) = map standardize_batch bs)"
proof -
  define w1 where "w1 = load_batches env t pre w"
  define w2 where "w2 = insert_batch env t batch w1"
  have split: "load_batches env t (pre @ batch # post) w = load_batches env t post w2"
    by (simp add: load_batches_append w1_def w2_def)
  have fallback: "\<exists>calls later more.
         upserts (load_batches env t (pre @ batch # post) w)
           = upserts w1
             @ \<lparr>site = Bulk, target = t, payload = standardize_batch batch, succeeded = False\<rparr>
             # calls @ later
         \<and> map payload calls = map (\<lambda>r. [r]) (standardize_batch batch)
         \<and> list_all (\<lambda>x. site x = OneByOne \<and> target x = t) calls
         \<and> (\<forall>i < length batch. succeeded (calls ! i)
               = upsert_ok env (length (upserts w1) + 1 + i) t [standardize_batch batch ! i])
         \<and> map payload (filter (\<lambda>x. site x = Bulk) later) = map standardize_batch post
         \<and> fallback_reports (load_batches env t (pre @ batch # post) w)
             = fallback_reports w1 @ (length (filter succeeded calls), length batch) # more
         \<and> length (filter succeeded calls) \<le> length batch"
    if fails: "\<not> upsert_ok env (length (upserts w1)) t (standardize_batch batch)"
  proof -
    from insert_batch_fallback [OF fails] obtain calls where
      ups: "upserts w2
           = upserts w1
             @ \<lparr>site = Bulk, target = t, payload = standardize_batch batch, succeeded = False\<rparr>
             # calls"
      and pay: "map payload calls = map (\<lambda>r. [r]) (standardize_batch batch)"
      and sites: "list_all (\<lambda>x. site x = OneByOne \<and> target x = t) calls"
      and outs: "\<forall>i < length batch. succeeded (calls ! i)
               = upsert_ok env (length (upserts w1) + 1 + i) t [standardize_batch batch ! i]"
      and rep: "fallback_reports w2
             = fallback_reports w1 @ [(length (filter succeeded calls), length batch)]"
      and le: "length (filter succeeded calls) \<le> length batch"
      unfolding w2_def by blast
    from load_batches_bulk_calls [of env t post w2] obtain later where
      rest: "upserts (load_batches env t post w2) = upserts w2 @ later"
      and bulk: "map payload (filter (\<lambda>x. site x = Bulk) later) = map standardize_batch post"
      by blast
    from load_batches_reports [of env t post w2] obtain more where
      reps: "fallback_reports (load_batches env t post w2) = fallback_reports w2 @ more"
      by blast
    have 1: "upserts (load_batches env t (pre @ batch # post) w)
           = upserts w1
             @ \<lparr>site = Bulk, target = t, payload = standardize_batch batch, succeeded = False\<rparr>
             # calls @ later"
      unfolding split rest ups by simp
    have 2: "fallback_reports (load_batches env t (pre @ batch # post) w)
             = fallback_reports w1 @ (length (filter succeeded calls), length batch) # more"
      unfolding split reps rep by simp
    from 1 pay sites outs bulk 2 le show ?thesis by blast
  qed
  from fallback load_batches_bulk_calls [of env t bs w] show ?thesis
    unfolding w1_def by blast
qed

lemma sample_batch_keys: "all_keys sample_batch = {''a'', ''b'', ''c''}"
  by (auto simp add: all_keys_def sample_batch_def)

lemma sample_batch_padded: "standardize_batch sample_batch =
   [standardized_record {''a'', ''b'', ''c''} [''a'' \<mapsto> PStr ''1'', ''b'' \<mapsto> PStr ''2''],
    standardized_record {''a'', ''b'', ''c''} [''a'' \<mapsto> PStr ''3'', ''c'' \<mapsto> PStr ''4''],
    standardized_record {''a'', ''b'', ''c''} [''a'' \<mapsto> PStr ''5'']]"
  by (simp add: standardize_batch_def sample_batch_keys) (simp add: sample_batch_def)

lemma count_succeeded:
  "length (filter succeeded calls) = length (filter (\<lambda>b. b) (map succeeded calls))"
  by (induction calls) simp_all

lemma clean_batch_padded:
  "standardize_batch clean_batch = [standardized_record {''a''} [''a'' \<mapsto> PStr ''5'']]"
  by (simp add: standardize_batch_def all_keys_def clean_batch_def)

text \<open>
  A load of two batches. The bulk call of the sample batch fails; its three rows are then
  sent one by one, the second fails, the first and the third succeed, and the report is
  2 out of 3. The load goes on to the second batch, whose bulk call succeeds.
\<close>

theorem bulk_failure_falls_back_row_by_row_witness:
  "\<not> upsert_ok flaky_env (length (upserts (load_batches flaky_env ''hubspot_contacts'' [] empty_world)))
        ''hubspot_contacts'' (standardize_batch sample_batch)
   \<and> map site (upserts (load_batches flaky_env ''hubspot_contacts'' [sample_batch, clean_batch]
                          empty_world))
       = [Bulk, OneByOne, OneByOne, OneByOne, Bulk]
   \<and> map succeeded (upserts (load_batches flaky_env ''hubspot_contacts''
                               [sample_batch, clean_batch] empty_world))
       = [False, True, False, True, True]
   \<and> fallback_reports (load_batches flaky_env ''hubspot_contacts'' [sample_batch, clean_batch]
                          empty_world)
       = [(2, 3)]"
proof -
  let ?run = "load_batches flaky_env ''hubspot_contacts'' [sample_batch, clean_batch] empty_world"
  have start: "load_batches flaky_env ''hubspot_contacts'' [] empty_world = empty_world"
    by simp
  have fails: "\<not> upsert_ok flaky_env (length (upserts empty_world)) ''hubspot_contacts''
                   (standardize_batch sample_batch)"
    by (simp add: sample_batch_padded flaky_env_def sample_env_def standardized_record_def)
  have eval: "map site (upserts ?run) = [Bulk, OneByOne, OneByOne, OneByOne, Bulk]
      \<and> map succeeded (upserts ?run) = [False, True, False, True, True]
      \<and> fallback_reports ?run = [(2, 3)]"
    by (simp add: insert_batch_def sample_batch_padded clean_batch_padded flaky_env_def
        sample_env_def standardized_record_def empty_world_def Let_def)
  note inst = bulk_failure_falls_back_row_by_row
         [of flaky_env "''hubspot_contacts''" "[]" empty_world sample_batch "[clean_batch]",
          unfolded start append_Nil]
  from inst fails obtain calls later more where
    ups: "upserts ?run
           = upserts empty_world
             @ \<lparr>site = Bulk, target = ''hubspot_contacts'', payload = standardize_batch sample_batch,
                succeeded = False\<rparr> # calls @ later"
    and pay: "map payload calls = map (\<lambda>r. [r]) (standardize_batch sample_batch)"
    and rep: "fallback_reports ?run
             = fallback_reports empty_world
               @ (length (filter succeeded calls), length sample_batch) # more"
    by blast
  from pay have three: "length calls = 3"
    by (metis length_map sample_batch_padded length_Cons list.size(3) numeral_3_eq_3)
  from eval have "map succeeded calls @ map succeeded later = [True, False, True, True]"
    unfolding ups by (simp add: empty_world_def)
  then have "take (length calls) (map succeeded calls @ map succeeded later)
               = take (length calls) [True, False, True, True]"
    by simp
  with three have "map succeeded calls = [True, False, True]"
    by simp
  then have "length (filter succeeded calls) = 2"
    by (simp add: count_succeeded)
  with rep have "hd (fallback_reports ?run) = (2, 3)"
    by (simp add: empty_world_def sample_batch_def)
  with fails eval start show ?thesis by simp
qed

section \<open>The provisioning gate\<close>

lemma gate_closed:
  assumes "\<not> table_exists env table_name"
  shows "gate_and_load env object_type table_name properties since batch_size w
           = Some (case create_supabase_table env table_name properties w of
                     (Inl e, w1) \<Rightarrow> (Inl e, w1)
                   | (Inr created, w1) \<Rightarrow> (Inr (), w1))"
  using assms
  by (simp add: gate_and_load_def check_supabase_table_exists_def create_supabase_table_def)





section \<open>What a sync leaves untouched\<close>

text \<open>
  One turn of the fetch loop either ends the loop, having sent its request, or hands
  over to the next turn. Fetching changes nothing but the list of requests sent.
\<close>

lemma fetch_loop_step:
  assumes "fetch_loop object_type properties limit since (r # rs) after all_objects w = Some (objects, w1)"
  shows "w1 = w\<lparr>requests := requests w @ [page_request object_type properties limit since after]\<rparr>
         \<or> (\<exists>a acc. fetch_loop object_type properties limit since rs a acc
                       (w\<lparr>requests := requests w @ [page_request object_type properties limit since after]\<rparr>)
                     = Some (objects, w1))"
proof (cases r)
  case RequestFailed
  with assms show ?thesis by simp
next
  case (Response status_code retry_wait js)
  show ?thesis
  proof (cases "status_code = 200")
    case False
    with assms Response show ?thesis
      by (cases retry_wait) (auto simp add: Let_def split: if_splits)
  next
    case True
    show ?thesis
    proof (cases js)
      case (Inl e)
      with assms Response True show ?thesis by simp
    next
      case (Inr data)
      with assms Response True show ?thesis
        by (simp add: Let_def split: sum.splits option.splits if_splits) blast+
    qed
  qed
qed

lemma fetch_loop_frame:
  "fetch_loop object_type properties limit since rs after all_objects w = Some (objects, w1) \<Longrightarrow>
   sync_state w1 = sync_state w \<and> upserts w1 = upserts w \<and> files w1 = files w"
proof (induction rs arbitrary: after all_objects w)
  case Nil
  then show ?case by simp
next
  case (Cons r rs)
  from fetch_loop_step [OF Cons.prems] show ?case
  proof
    assume "w1 = w\<lparr>requests := requests w @ [page_request object_type properties limit since after]\<rparr>"
    then show ?thesis by simp
  next
    assume "\<exists>a acc. fetch_loop object_type properties limit since rs a acc
                       (w\<lparr>requests := requests w @ [page_request object_type properties limit since after]\<rparr>)
                     = Some (objects, w1)"
    then obtain a acc where "fetch_loop object_type properties limit since rs a acc
                       (w\<lparr>requests := requests w @ [page_request object_type properties limit since after]\<rparr>)
                     = Some (objects, w1)"
      by blast
    from Cons.IH [OF this] show ?thesis by simp
  qed
qed

lemma get_hubspot_objects_frame:
  "get_hubspot_objects env object_type properties limit since w = Some (objects, w1) \<Longrightarrow>
   sync_state w1 = sync_state w \<and> upserts w1 = upserts w \<and> files w1 = files w"
  unfolding get_hubspot_objects_def by (rule fetch_loop_frame)

text \<open>Loading writes to destination tables only, never to the watermark table.\<close>

lemma insert_one_by_one_sync_state:
  "sync_state (snd (insert_one_by_one env t rows c w)) = sync_state w"
  by (induction rows arbitrary: c w) (simp_all add: Let_def)

lemma insert_batch_sync_state: "sync_state (insert_batch env t batch w) = sync_state w"
proof (cases "upsert_ok env (length (upserts w)) t (standardize_batch batch)")
  case True
  then show ?thesis by (simp add: insert_batch_def Let_def)
next
  case False
  define w1 where "w1 = w\<lparr>upserts := upserts w @
      [\<lparr>site = Bulk, target = t, payload = standardize_batch batch, succeeded = False\<rparr>]\<rparr>"
  obtain c w2 where run: "insert_one_by_one env t (standardize_batch batch) 0 w1 = (c, w2)"
    by (cases "insert_one_by_one env t (standardize_batch batch) 0 w1")
  from insert_one_by_one_sync_state [of env t "standardize_batch batch" 0 w1] run
  have "sync_state w2 = sync_state w" by (simp add: w1_def)
  with False run show ?thesis by (simp add: insert_batch_def Let_def w1_def)
qed

lemma load_batches_sync_state: "sync_state (load_batches env t bs w) = sync_state w"
  by (induction bs arbitrary: w) (simp_all add: insert_batch_sync_state)

text \<open>
  The ways \<^verbatim>\<open>export_object_type\<close> can end after the gate, and with them: it never
  writes the watermark table itself.
\<close>

lemma fetch_and_load_cases:
  assumes "fetch_and_load env object_type t properties since batch_size w = Some (res, w1)"
  shows "\<exists>objects w0. get_hubspot_objects env object_type properties batch_size (Some since) w
                          = Some (objects, w0)
           \<and> (w1 = w0 \<or> (\<exists>bs. res = Inr () \<and> w1 = load_batches env t bs w0))"
proof (cases "get_hubspot_objects env object_type properties batch_size (Some since) w")
  case None
  with assms show ?thesis by (simp add: fetch_and_load_def)
next
  case (Some p)
  obtain objects w0 where p: "p = (objects, w0)" by (cases p)
  show ?thesis
  proof (cases "objects = []")
    case True
    with assms Some p show ?thesis by (simp add: fetch_and_load_def)
  next
    case False
    note nonempty = this
    show ?thesis
    proof (cases "prepare_records env properties objects []")
      case (Inl e)
      with assms Some p nonempty show ?thesis by (simp add: fetch_and_load_def)
    next
      case (Inr records)
      with assms Some p nonempty show ?thesis
        by (cases "records = []"; cases "batch_size = 0") (simp_all add: fetch_and_load_def, blast)
    qed
  qed
qed

lemma fetch_and_load_sync_state:
  assumes "fetch_and_load env object_type t properties since batch_size w = Some (res, w1)"
  shows "sync_state w1 = sync_state w"
proof -
  from fetch_and_load_cases [OF assms] obtain objects w0 where
    f: "get_hubspot_objects env object_type properties batch_size (Some since) w = Some (objects, w0)"
    and c: "w1 = w0 \<or> (\<exists>bs. res = Inr () \<and> w1 = load_batches env t bs w0)"
    by blast
  from get_hubspot_objects_frame [OF f] have "sync_state w0 = sync_state w" by simp
  with c show ?thesis by (auto simp add: load_batches_sync_state)
qed

lemma gate_and_load_sync_state:
  assumes "gate_and_load env object_type t properties since batch_size w = Some (res, w1)"
  shows "sync_state w1 = sync_state w"
proof (cases "check_supabase_table_exists env t")
  case True
  with assms have "fetch_and_load env object_type t properties since batch_size w = Some (res, w1)"
    by (simp add: gate_and_load_def)
  then show ?thesis by (rule fetch_and_load_sync_state)
next
  case False
  with assms show ?thesis
    by (cases "file_write_ok env (sql_filename t)")
       (auto simp add: gate_and_load_def create_supabase_table_def)
qed

lemma export_object_type_sync_state:
  assumes "export_object_type env object_type specific_properties batch_size w = Some (res, w1)"
  shows "sync_state w1 = sync_state w"
proof -
  let ?t = "''hubspot_'' @ object_type"
  let ?since = "fst (get_last_sync_time env object_type w)"
  from assms have "w1 = w
      \<or> (\<exists>properties. gate_and_load env object_type ?t properties ?since batch_size w = Some (res, w1))"
    by (cases specific_properties; cases "get_all_properties env object_type = []")
       (simp_all add: export_object_type_def create_sync_state_table_def Let_def, blast+)
  then show ?thesis
    using gate_and_load_sync_state by blast
qed

text \<open>
  When \<^verbatim>\<open>export_object_type\<close> raises, the run keeps the watermark table as it
  was.
\<close>

lemma watermark_unchanged_when_export_raises:
  "export_object_type env object_type specific_properties 100 w = Some (Inl e, w1) \<Longrightarrow>
   process_object_type env object_type specific_properties w = Some w1
   \<and> sync_state w1 = sync_state w"
  by (simp add: process_object_type_def export_object_type_sync_state)

section \<open>The watermark after a run\<close>

lemma export_returns_without_objects:
  assumes t: "table_exists env (''hubspot_'' @ object_type)"
    and f: "get_hubspot_objects env object_type properties batch_size
              (Some (fst (get_last_sync_time env object_type w))) w = Some (objects, w1)"
    and z: "objects = [] \<or> prepare_records env properties objects [] = Inr []"
  shows "export_object_type env object_type (Some properties) batch_size w = Some (Inr (), w1)"
  using t f z
  by (auto simp add: export_object_type_def create_sync_state_table_def gate_and_load_def
      check_supabase_table_exists_def fetch_and_load_def Let_def)

text \<open>
  Claim C3. Whenever \<^verbatim>\<open>export_object_type\<close> returns without raising, the run
  calls \<^verbatim>\<open>update_sync_state\<close> with the current time, and when the store accepts
  the write the watermark of the object type is that time. The function returns
  without raising, and without a single upsert, on each of its early exits: the
  destination table is missing and the script could be written; the discovery of
  properties yields none; the fetch yields no objects, or the transformer no records.
\<close>

theorem watermark_written_whenever_export_returns:
  "(export_object_type env object_type specific_properties 100 w = Some (Inr u, w1) \<longrightarrow>
      process_object_type env object_type specific_properties w
        = Some (update_sync_state env object_type (now_sync env) [] w1)
      \<and> (state_write_ok env \<longrightarrow>
           sync_state (update_sync_state env object_type (now_sync env) [] w1) object_type
             = Some \<lparr>last_sync_time = now_sync env, sync_cursor = [],
                     updated_at = now_write env\<rparr>
           \<and> upserts (update_sync_state env object_type (now_sync env) [] w1) = upserts w1))
   \<and> (\<not> table_exists env (''hubspot_'' @ object_type)
        \<and> file_write_ok env (''create_hubspot_'' @ object_type @ ''.sql'') \<longrightarrow>
        (\<exists>w2. export_object_type env object_type (Some properties) 100 w = Some (Inr (), w2)
            \<and> upserts w2 = upserts w \<and> requests w2 = requests w))
   \<and> (get_all_properties env object_type = [] \<longrightarrow>
        export_object_type env object_type None 100 w = Some (Inr (), w))
   \<and> (table_exists env (''hubspot_'' @ object_type)
        \<and> get_hubspot_objects env object_type properties 100
              (Some (fst (get_last_sync_time env object_type w))) w = Some (objects, w3)
        \<and> (objects = [] \<or> prepare_records env properties objects [] = Inr []) \<longrightarrow>
        export_object_type env object_type (Some properties) 100 w = Some (Inr (), w3)
        \<and> upserts w3 = upserts w)"
proof -
  have a: "process_object_type env object_type specific_properties w
        = Some (update_sync_state env object_type (now_sync env) [] w1)
      \<and> (state_write_ok env \<longrightarrow>
           sync_state (update_sync_state env object_type (now_sync env) [] w1) object_type
             = Some \<lparr>last_sync_time = now_sync env, sync_cursor = [],
                     updated_at = now_write env\<rparr>
           \<and> upserts (update_sync_state env object_type (now_sync env) [] w1) = upserts w1)"
    if "export_object_type env object_type specific_properties 100 w = Some (Inr u, w1)"
    using that by (simp add: process_object_type_def update_sync_state_def)
  have b: "\<exists>w2. export_object_type env object_type (Some properties) 100 w = Some (Inr (), w2)
            \<and> upserts w2 = upserts w \<and> requests w2 = requests w"
    if "\<not> table_exists env (''hubspot_'' @ object_type)"
      and "file_write_ok env (''create_hubspot_'' @ object_type @ ''.sql'')"
    using that gate_closed [of env "''hubspot_'' @ object_type"]
    by (simp add: export_object_type_def create_sync_state_table_def Let_def
        create_supabase_table_def sql_filename_def)
  have c: "export_object_type env object_type None 100 w = Some (Inr (), w)"
    if "get_all_properties env object_type = []"
    using that by (simp add: export_object_type_def create_sync_state_table_def Let_def)
  have d: "export_object_type env object_type (Some properties) 100 w = Some (Inr (), w3)
        \<and> upserts w3 = upserts w"
    if "table_exists env (''hubspot_'' @ object_type)
        \<and> get_hubspot_objects env object_type properties 100
              (Some (fst (get_last_sync_time env object_type w))) w = Some (objects, w3)
        \<and> (objects = [] \<or> prepare_records env properties objects [] = Inr [])"
    using that export_returns_without_objects [of env object_type properties 100 w objects w3]
      get_hubspot_objects_frame [of env object_type properties 100 _ w objects w3]
    by blast
  from a b c d show ?thesis by blast
qed

text \<open>
  No table exists for contacts: nothing is requested, nothing is loaded, and the
  watermark moves from 1 January to the time of the run.
\<close>

theorem watermark_written_whenever_export_returns_witness:
  "\<not> table_exists unprovisioned_env (''hubspot_'' @ ''contacts'')
   \<and> file_write_ok unprovisioned_env (''create_hubspot_'' @ ''contacts'' @ ''.sql'')
   \<and> state_write_ok unprovisioned_env
   \<and> sync_state synced_world ''contacts''
       = Some \<lparr>last_sync_time = 1704067200000000, sync_cursor = [], updated_at = 1704067200000000\<rparr>
   \<and> map_option (\<lambda>w. (sync_state w ''contacts'', upserts w, requests w))
        (process_object_type unprovisioned_env ''contacts'' (Some [''email'']) synced_world)
       = Some (Some \<lparr>last_sync_time = 1704153601000000, sync_cursor = [],
                     updated_at = 1704153602000000\<rparr>, [], [])"
proof -
  have e: "\<not> table_exists unprovisioned_env (''hubspot_'' @ ''contacts'')"
    "file_write_ok unprovisioned_env (''create_hubspot_'' @ ''contacts'' @ ''.sql'')"
    "state_write_ok unprovisioned_env"
    "now_sync unprovisioned_env = 1704153601000000"
    "now_write unprovisioned_env = 1704153602000000"
    by (simp_all add: unprovisioned_env_def sample_env_def)
  have s: "sync_state synced_world ''contacts''
       = Some \<lparr>last_sync_time = 1704067200000000, sync_cursor = [], updated_at = 1704067200000000\<rparr>"
    "upserts synced_world = []" "requests synced_world = []"
    by (simp_all add: synced_world_def empty_world_def)
  note inst = watermark_written_whenever_export_returns
    [of unprovisioned_env "''contacts''" _ synced_world _ _ "[''email'']"]
  from inst e(1,2) obtain w2 where
    x: "export_object_type unprovisioned_env ''contacts'' (Some [''email'']) 100 synced_world
          = Some (Inr (), w2)"
    and u: "upserts w2 = upserts synced_world" "requests w2 = requests synced_world"
    by blast
  from watermark_written_whenever_export_returns
    [of unprovisioned_env "''contacts''" "Some [''email'']" synced_world "()" w2] x e(3)
  have p: "process_object_type unprovisioned_env ''contacts'' (Some [''email'']) synced_world
        = Some (update_sync_state unprovisioned_env ''contacts'' (now_sync unprovisioned_env) [] w2)"
    and q: "sync_state (update_sync_state unprovisioned_env ''contacts'' (now_sync unprovisioned_env) [] w2) ''contacts''
             = Some \<lparr>last_sync_time = now_sync unprovisioned_env, sync_cursor = [],
                     updated_at = now_write unprovisioned_env\<rparr>"
    and r: "upserts (update_sync_state unprovisioned_env ''contacts'' (now_sync unprovisioned_env) [] w2) = upserts w2"
    by blast+
  have rq: "requests (update_sync_state unprovisioned_env ''contacts'' (now_sync unprovisioned_env) [] w2)
              = requests w2"
    by (simp add: update_sync_state_def)
  from p q r rq u s e show ?thesis by simp
qed

section \<open>Fetches that end early\<close>

text \<open>Evaluating the fetch and the transformer on the sample inputs.\<close>

lemma batches_single: "xs \<noteq> [] \<Longrightarrow> length xs \<le> n \<Longrightarrow> batches n xs = [xs]"
  by (subst batches.simps, subst batches.simps) (cases xs; auto)

lemma first_page_then:
  "fetch_loop object_type properties limit since (first_page # rs) after all_objects w
     = fetch_loop object_type properties limit since rs (PStr ''100'') (all_objects @ [sample_contact])
         (w\<lparr>requests := requests w @ [page_request object_type properties limit since after]\<rparr>)"
  by (simp add: first_page_def page_after_def Let_def)

lemma fetch_interrupted:
  "get_hubspot_objects interrupted_env object_type properties limit since w
     = Some ([sample_contact],
             w\<lparr>requests := requests w @
                [page_request object_type properties limit since PNone,
                 page_request object_type properties limit since (PStr ''100'')]\<rparr>)"
proof -
  have r: "responses interrupted_env = [first_page, RequestFailed]"
    by (simp add: interrupted_env_def)
  show ?thesis
    unfolding get_hubspot_objects_def r first_page_then by simp
qed

lemma fetch_unauthorized:
  "get_hubspot_objects unauthorized_env object_type properties limit since w
     = Some ([sample_contact],
             w\<lparr>requests := requests w @
                [page_request object_type properties limit since PNone,
                 page_request object_type properties limit since (PStr ''100'')]\<rparr>)"
proof -
  have r: "responses unauthorized_env = [first_page, unauthorized]"
    by (simp add: unauthorized_env_def)
  show ?thesis
    unfolding get_hubspot_objects_def r first_page_then by (simp add: unauthorized_def)
qed

lemma fetch_complete:
  "get_hubspot_objects sample_env object_type properties limit since w
     = Some ([sample_contact],
             w\<lparr>requests := requests w @ [page_request object_type properties limit since PNone]\<rparr>)"
  by (simp add: get_hubspot_objects_def sample_env_def last_page_def page_after_def Let_def)

lemma sample_make_record:
  assumes s: "sanitize env ''email'' = ''email''"
  shows "make_record env [''email''] sample_contact = Inr sample_row"
  by (simp add: make_record_def sample_contact_def sample_row_def s py_str_def)

text \<open>
  A response with status 401 ends the loop in the turn that receives it: the objects
  are those accumulated before, nothing is retried, and the answers after it are never
  asked for.
\<close>

lemma fetch_loop_unauthorized_stops:
  "fetch_loop object_type properties limit since (Response 401 retry_wait js # rs) after all_objects w
     = Some (all_objects,
             w\<lparr>requests := requests w @ [page_request object_type properties limit since after]\<rparr>)"
  by (simp add: Let_def)

text \<open>
  A run for contacts whose fetch yields the sample contact loads its row and, the store
  accepting the write, sets the watermark to the time of the run.
\<close>

lemma export_loads_sample:
  assumes s: "sanitize env ''email'' = ''email''"
    and t: "table_exists env ''hubspot_contacts''"
    and f: "get_hubspot_objects env ''contacts'' [''email''] 100
              (Some (fst (get_last_sync_time env ''contacts'' w))) w = Some ([sample_contact], w1)"
  shows "export_object_type env ''contacts'' (Some [''email'']) 100 w
           = Some (Inr (), insert_batch env ''hubspot_contacts'' [sample_row] w1)"
proof -
  have b: "batches 100 [sample_row] = [[sample_row]]"
    by (rule batches_single) simp_all
  show ?thesis
    using t f
    by (simp add: export_object_type_def create_sync_state_table_def gate_and_load_def
        check_supabase_table_exists_def fetch_and_load_def sample_make_record [OF s] b Let_def)
qed

lemma process_sample_watermark:
  assumes n: "sanitize env ''email'' = ''email''"
    and t: "table_exists env ''hubspot_contacts''"
    and f: "get_hubspot_objects env ''contacts'' [''email''] 100
              (Some (fst (get_last_sync_time env ''contacts'' w))) w = Some ([sample_contact], w1)"
    and s: "state_write_ok env"
  shows "map_option (\<lambda>w. sync_state w ''contacts'')
           (process_object_type env ''contacts'' (Some [''email'']) w)
         = Some (Some \<lparr>last_sync_time = now_sync env, sync_cursor = [], updated_at = now_write env\<rparr>)"
  using s by (simp add: process_object_type_def export_loads_sample [OF n t f] update_sync_state_def)

text \<open>
  Claim C1 asks that the watermark be left as it was when the fetch ends
  mid-pagination. Here the first page names a next page and the request for that page
  raises. The fetch returns the one object of the first page as its result,
  \<^verbatim>\<open>export_object_type\<close> returns, and the run writes the watermark: it moves from
  1 January to the time of the run, although the pages after the first were never read.
\<close>

theorem aborted_fetch_advances_watermark:
  "responses interrupted_env = [first_page, RequestFailed]
   \<and> map_option fst (get_hubspot_objects interrupted_env ''contacts'' [''email''] 100
                       (Some 1704067200000000) synced_world)
       = Some [sample_contact]
   \<and> sync_state synced_world ''contacts''
       = Some \<lparr>last_sync_time = 1704067200000000, sync_cursor = [], updated_at = 1704067200000000\<rparr>
   \<and> map_option (\<lambda>w. sync_state w ''contacts'')
        (process_object_type interrupted_env ''contacts'' (Some [''email'']) synced_world)
       = Some (Some \<lparr>last_sync_time = 1704153601000000, sync_cursor = [],
                     updated_at = 1704153602000000\<rparr>)"
proof -
  have r: "responses interrupted_env = [first_page, RequestFailed]"
    by (simp add: interrupted_env_def)
  have f: "map_option fst (get_hubspot_objects interrupted_env ''contacts'' [''email''] 100
                       (Some 1704067200000000) synced_world) = Some [sample_contact]"
    by (simp add: fetch_interrupted)
  have b: "sync_state synced_world ''contacts''
       = Some \<lparr>last_sync_time = 1704067200000000, sync_cursor = [], updated_at = 1704067200000000\<rparr>"
    by (simp add: synced_world_def empty_world_def)
  have e: "table_exists interrupted_env ''hubspot_contacts''" "state_write_ok interrupted_env"
    "now_sync interrupted_env = 1704153601000000" "now_write interrupted_env = 1704153602000000"
    by (simp_all add: interrupted_env_def sample_env_def)
  have n: "sanitize interrupted_env ''email'' = ''email''"
    by (rule sanitize_samples) (simp_all add: interrupted_env_def sample_env_def)
  from process_sample_watermark [OF n e(1) fetch_interrupted e(2)]
  have p: "map_option (\<lambda>w. sync_state w ''contacts'')
        (process_object_type interrupted_env ''contacts'' (Some [''email'']) synced_world)
       = Some (Some \<lparr>last_sync_time = 1704153601000000, sync_cursor = [],
                     updated_at = 1704153602000000\<rparr>)"
    by (simp add: e)
  from r f b p show ?thesis by blast
qed

text \<open>
  Claim C2 asks that a 401 surface to the caller of the sync. Here the second page
  request is answered with status 401. The fetch stops there, after two requests, and
  returns the list of the first page, the same list a fetch returns whose only page is
  the last one; the caller is given no sign of the failure, and the run writes the
  watermark as after a complete sync.
\<close>

theorem unauthorized_fetch_returns_normally:
  "responses unauthorized_env = [first_page, Response 401 (Inr 10) (Inl JSONDecodeError)]
   \<and> responses sample_env = [last_page]
   \<and> map_option fst (get_hubspot_objects unauthorized_env ''contacts'' [''email''] 100
                       (Some 1704067200000000) synced_world)
       = Some [sample_contact]
   \<and> map_option fst (get_hubspot_objects sample_env ''contacts'' [''email''] 100
                       (Some 1704067200000000) synced_world)
       = Some [sample_contact]
   \<and> map_option (\<lambda>p. map req_after (requests (snd p)))
        (get_hubspot_objects unauthorized_env ''contacts'' [''email''] 100
           (Some 1704067200000000) synced_world)
       = Some [PNone, PStr ''100'']
   \<and> map_option (\<lambda>w. sync_state w ''contacts'')
        (process_object_type unauthorized_env ''contacts'' (Some [''email'']) synced_world)
       = Some (Some \<lparr>last_sync_time = 1704153601000000, sync_cursor = [],
                     updated_at = 1704153602000000\<rparr>)"
proof -
  have r: "responses unauthorized_env = [first_page, Response 401 (Inr 10) (Inl JSONDecodeError)]"
    "responses sample_env = [last_page]"
    by (simp_all add: unauthorized_env_def unauthorized_def sample_env_def)
  have f: "map_option fst (get_hubspot_objects unauthorized_env ''contacts'' [''email''] 100
                       (Some 1704067200000000) synced_world) = Some [sample_contact]"
    "map_option fst (get_hubspot_objects sample_env ''contacts'' [''email''] 100
                       (Some 1704067200000000) synced_world) = Some [sample_contact]"
    by (simp_all add: fetch_unauthorized fetch_complete)
  have q: "map_option (\<lambda>p. map req_after (requests (snd p)))
        (get_hubspot_objects unauthorized_env ''contacts'' [''email''] 100
           (Some 1704067200000000) synced_world)
       = Some [PNone, PStr ''100'']"
    by (simp add: fetch_unauthorized page_request_def synced_world_def empty_world_def)
  have e: "table_exists unauthorized_env ''hubspot_contacts''" "state_write_ok unauthorized_env"
    "now_sync unauthorized_env = 1704153601000000" "now_write unauthorized_env = 1704153602000000"
    by (simp_all add: unauthorized_env_def sample_env_def)
  have n: "sanitize unauthorized_env ''email'' = ''email''"
    by (rule sanitize_samples) (simp_all add: unauthorized_env_def sample_env_def)
  from process_sample_watermark [OF n e(1) fetch_unauthorized e(2)]
  have p: "map_option (\<lambda>w. sync_state w ''contacts'')
        (process_object_type unauthorized_env ''contacts'' (Some [''email'']) synced_world)
       = Some (Some \<lparr>last_sync_time = 1704153601000000, sync_cursor = [],
                     updated_at = 1704153602000000\<rparr>)"
    by (simp add: e)
  from r f q p show ?thesis by blast
qed

section \<open>Flattening a record\<close>

text \<open>
  The loop over the declared properties adds the flattened keys to the record it starts
  from, leaves every other key as it was, and stores under each flattened key the text
  of the value of a declared property with that column name.
\<close>

lemma flattened_Cons:
  "flattened env ps (prop # rest)
     = (if prop_value ps prop \<noteq> PNone then insert (sanitize env prop) (flattened env ps rest)
        else flattened env ps rest)"
  by (auto simp add: flattened_def)

lemma add_properties_result:
  "\<exists>r. add_properties env (PDict ps) names r0 = Inr r
       \<and> dom r = dom r0 \<union> flattened env ps names
       \<and> (\<forall>c. c \<notin> flattened env ps names \<longrightarrow> r c = r0 c)
       \<and> (\<forall>c \<in> flattened env ps names.
              \<exists>prop \<in> set names. prop_value ps prop \<noteq> PNone \<and> sanitize env prop = c
                 \<and> r c = Some (PStr (py_str env (prop_value ps prop))))"
proof (induction names arbitrary: r0)
  case Nil
  show ?case by (simp add: flattened_def)
next
  case (Cons p rest)
  define r1 where "r1 = (if prop_value ps p \<noteq> PNone
                         then r0(sanitize env p \<mapsto> PStr (py_str env (prop_value ps p))) else r0)"
  have step: "add_properties env (PDict ps) (p # rest) r0 = add_properties env (PDict ps) rest r1"
    by (simp add: r1_def prop_value_def Let_def)
  from Cons.IH [of r1] obtain r where
    run: "add_properties env (PDict ps) rest r1 = Inr r"
    and keys: "dom r = dom r1 \<union> flattened env ps rest"
    and kept: "\<forall>c. c \<notin> flattened env ps rest \<longrightarrow> r c = r1 c"
    and vals: "\<forall>c \<in> flattened env ps rest.
              \<exists>p \<in> set rest. prop_value ps p \<noteq> PNone \<and> sanitize env p = c
                 \<and> r c = Some (PStr (py_str env (prop_value ps p)))"
    by blast
  have 1: "dom r = dom r0 \<union> flattened env ps (p # rest)"
    unfolding keys by (auto simp add: r1_def flattened_Cons)
  have 2: "r c = r0 c" if "c \<notin> flattened env ps (p # rest)" for c
  proof -
    from that have "c \<notin> flattened env ps rest"
      by (simp add: flattened_Cons split: if_splits)
    with kept have "r c = r1 c" by blast
    moreover from that have "r1 c = r0 c"
      by (auto simp add: r1_def flattened_Cons split: if_splits)
    ultimately show ?thesis by simp
  qed
  have 3: "\<exists>q \<in> set (p # rest). prop_value ps q \<noteq> PNone \<and> sanitize env q = c
                 \<and> r c = Some (PStr (py_str env (prop_value ps q)))"
    if "c \<in> flattened env ps (p # rest)" for c
  proof (cases "c \<in> flattened env ps rest")
    case True
    with vals show ?thesis by auto
  next
    case False
    with that have here: "prop_value ps p \<noteq> PNone" "c = sanitize env p"
      by (auto simp add: flattened_Cons split: if_splits)
    from False kept have "r c = r1 c" by blast
    with here have "r c = Some (PStr (py_str env (prop_value ps p)))"
      by (simp add: r1_def)
    with here show ?thesis by auto
  qed
  from step run 1 2 3 show ?case by auto
qed

text \<open>
  Claim C4, amended. For a source record (a dictionary with an \<^verbatim>\<open>id\<close> whose
  \<^verbatim>\<open>properties\<close> entry is a dictionary, or is absent) and a declared property
  list, the transformer makes a row. Its keys are the five fixed keys and the sanitized
  names of exactly those declared properties whose value in the record is present and
  not null; each of these keys holds, as a string, the value of a declared property of
  that column name; absent, null and undeclared properties add no key. The row keeps
  the full, untouched properties map under \<^verbatim>\<open>raw_properties\<close> provided no declared
  property with a present, non-null value has the column name
  \<^verbatim>\<open>raw_properties\<close>.
\<close>

theorem flatten_keeps_raw_properties:
  assumes ident: "py_getitem obj ''id'' = Inr hubspot_id"
    and props: "py_get obj ''properties'' (PDict []) = Inr (PDict ps)"
  shows "\<exists>r. make_record env properties obj = Inr r
       \<and> dom r = {''hubspot_id'', ''created_at'', ''updated_at'', ''archived'', ''raw_properties''}
                 \<union> flattened env ps properties
       \<and> (''raw_properties'' \<notin> flattened env ps properties \<longrightarrow>
            r ''raw_properties'' = Some (PDict ps))
       \<and> (\<forall>c \<in> flattened env ps properties.
              \<exists>prop \<in> set properties. prop_value ps prop \<noteq> PNone \<and> sanitize env prop = c
                 \<and> r c = Some (PStr (py_str env (prop_value ps prop))))"
proof -
  from ident obtain kvs where obj: "obj = PDict kvs"
    by (cases obj) simp_all
  define r0 :: row where "r0 =
     [''hubspot_id'' \<mapsto> hubspot_id,
      ''created_at'' \<mapsto> (case map_of kvs ''createdAt'' of None \<Rightarrow> PNone | Some v \<Rightarrow> v),
      ''updated_at'' \<mapsto> (case map_of kvs ''updatedAt'' of None \<Rightarrow> PNone | Some v \<Rightarrow> v),
      ''archived'' \<mapsto> (case map_of kvs ''archived'' of None \<Rightarrow> PBool False | Some v \<Rightarrow> v),
      ''raw_properties'' \<mapsto> PDict ps]"
  have make: "make_record env properties obj = add_properties env (PDict ps) properties r0"
    using ident props by (simp add: make_record_def obj r0_def)
  have d0: "dom r0 = {''hubspot_id'', ''created_at'', ''updated_at'', ''archived'', ''raw_properties''}"
    by (auto simp add: r0_def)
  have raw0: "r0 ''raw_properties'' = Some (PDict ps)"
    by (simp add: r0_def)
  from add_properties_result [of env ps properties r0] obtain r where
    run: "add_properties env (PDict ps) properties r0 = Inr r"
    and keys: "dom r = dom r0 \<union> flattened env ps properties"
    and kept: "\<forall>c. c \<notin> flattened env ps properties \<longrightarrow> r c = r0 c"
    and vals: "\<forall>c \<in> flattened env ps properties.
              \<exists>prop \<in> set properties. prop_value ps prop \<noteq> PNone \<and> sanitize env prop = c
                 \<and> r c = Some (PStr (py_str env (prop_value ps prop)))"
    by blast
  from kept raw0 have raw: "''raw_properties'' \<notin> flattened env ps properties \<longrightarrow>
            r ''raw_properties'' = Some (PDict ps)"
    by simp
  from make run keys d0 raw vals show ?thesis by auto
qed

text \<open>
  The properties email and custom_field with the declared list email: the row has the
  column email and no column custom_field, and raw_properties holds both.
\<close>

theorem flatten_keeps_raw_properties_witness:
  "py_getitem sample_contact ''id'' = Inr (PStr ''1'')
   \<and> py_get sample_contact ''properties'' (PDict [])
       = Inr (PDict [(''email'', PStr ''a@b.com''), (''custom_field'', PStr ''x'')])
   \<and> map_sum id dom (make_record sample_env [''email''] sample_contact)
       = Inr {''hubspot_id'', ''created_at'', ''updated_at'', ''archived'', ''raw_properties'',
              ''email''}
   \<and> map_sum id (\<lambda>r. r ''raw_properties'') (make_record sample_env [''email''] sample_contact)
       = Inr (Some (PDict [(''email'', PStr ''a@b.com''), (''custom_field'', PStr ''x'')]))
   \<and> map_sum id (\<lambda>r. r ''email'') (make_record sample_env [''email''] sample_contact)
       = Inr (Some (PStr ''a@b.com''))
   \<and> map_sum id (\<lambda>r. r ''custom_field'') (make_record sample_env [''email''] sample_contact)
       = Inr None"
proof -
  let ?ps = "[(''email'', PStr ''a@b.com''), (''custom_field'', PStr ''x'')]"
  have ident: "py_getitem sample_contact ''id'' = Inr (PStr ''1'')"
    by (simp add: sample_contact_def)
  have props: "py_get sample_contact ''properties'' (PDict []) = Inr (PDict ?ps)"
    by (simp add: sample_contact_def)
  have s: "sanitize sample_env ''email'' = ''email''"
    by (rule sanitize_samples) (simp_all add: sample_env_def)
  have fl: "flattened sample_env ?ps [''email''] = {''email''}"
    by (simp add: flattened_Cons prop_value_def s) (simp add: flattened_def)
  from flatten_keeps_raw_properties [OF ident props, of sample_env "[''email'']"]
  obtain r where
    run: "make_record sample_env [''email''] sample_contact = Inr r"
    and keys: "dom r = {''hubspot_id'', ''created_at'', ''updated_at'', ''archived'',
                        ''raw_properties''} \<union> {''email''}"
    and raw: "r ''raw_properties'' = Some (PDict ?ps)"
    and vals: "\<exists>p \<in> set [''email'']. prop_value ?ps p \<noteq> PNone \<and> sanitize sample_env p = ''email''
                 \<and> r ''email'' = Some (PStr (py_str sample_env (prop_value ?ps p)))"
    unfolding fl by auto
  from vals have email: "r ''email'' = Some (PStr ''a@b.com'')"
    by (simp add: prop_value_def py_str_def)
  from keys have "''custom_field'' \<notin> dom r" by simp
  then have other: "r ''custom_field'' = None" by blast
  from ident props run keys raw email other show ?thesis by auto
qed

text \<open>
  Claim C4 as stated, for every record and every declared list, fails where a declared
  property is named \<^verbatim>\<open>raw_properties\<close>: the row then holds the text of that one
  property under \<^verbatim>\<open>raw_properties\<close>, and the properties map is not in the row.
\<close>

theorem raw_properties_overwritten:
  "py_get colliding_contact ''properties'' (PDict [])
     = Inr (PDict [(''raw_properties'', PStr ''x''), (''email'', PStr ''a@b.com'')])
   \<and> map_sum id (\<lambda>r. r ''raw_properties'')
         (make_record sample_env [''raw_properties''] colliding_contact)
     = Inr (Some (PStr ''x''))
   \<and> map_sum id (\<lambda>r. r ''raw_properties'')
         (make_record sample_env [''raw_properties''] colliding_contact)
     \<noteq> Inr (Some (PDict [(''raw_properties'', PStr ''x''), (''email'', PStr ''a@b.com'')]))"
proof -
  have s: "sanitize sample_env ''raw_properties'' = ''raw_properties''"
    by (rule sanitize_samples) (simp_all add: sample_env_def)
  show ?thesis
    by (simp add: make_record_def colliding_contact_def s py_str_def)
qed

end
